theory Spec2Isabelle
  imports Complex_Main
begin

section \<open>JavaScript values\<close>

text \<open>
  The package is a layer of TypeScript functions over the Earth Engine client library.
  TypeScript types are erased when the code runs, and the client module inspects the
  run-time type of its inputs itself (\<open>typeof project\<close>, \<open>typeof keyInput\<close>), so the
  values that flow through it are modelled as untyped JavaScript values.

  \<^item> A number is finite (positive and negative zero are identified; both are falsy),
    \<open>NaN\<close> or an infinity.
  \<^item> A string is a list of characters, each standing for one code unit in the range
    U+0000 to U+00FF.
  \<^item> \<open>JObj\<close> is a plain data object, its properties in insertion order.
  \<^item> \<open>JRef n\<close> is an object owned by the wrapped library (an image, a geometry, a task,
    ...), opaque to this package; \<open>JFun n\<close> is a function supplied by the caller.
  \<^item> \<open>JLambda src captured\<close> is a function this package creates itself: the text of the
    arrow function and the values it closes over.
  \<^item> \<open>JError m\<close> is the object \<open>new Error(m)\<close>; \<open>JTypeError\<close> is the TypeError the
    engine raises itself (its message is specific to the engine).
\<close>

datatype number = Finite rat | NaN | PosInfinity | NegInfinity

datatype jsval =
    JUndefined
  | JNull
  | JBool bool
  | JNum number
  | JStr string
  | JArr "jsval list"
  | JObj "(string \<times> jsval) list"
  | JRef nat
  | JFun nat
  | JLambda string "jsval list"
  | JError string
  | JTypeError

text \<open>Conversion to boolean, as \<open>if (v)\<close>, \<open>a && b\<close> and \<open>a || b\<close> perform it.\<close>

fun number_truthy :: "number \<Rightarrow> bool" where
  "number_truthy (Finite r) = (r \<noteq> 0)"
| "number_truthy NaN = False"
| "number_truthy _ = True"

fun js_truthy :: "jsval \<Rightarrow> bool" where
  "js_truthy JUndefined = False"
| "js_truthy JNull = False"
| "js_truthy (JBool b) = b"
| "js_truthy (JNum n) = number_truthy n"
| "js_truthy (JStr s) = (s \<noteq> [])"
| "js_truthy _ = True"

text \<open>The \<open>typeof\<close> operator.\<close>

fun typeof :: "jsval \<Rightarrow> string" where
  "typeof JUndefined = ''undefined''"
| "typeof (JBool _) = ''boolean''"
| "typeof (JNum _) = ''number''"
| "typeof (JStr _) = ''string''"
| "typeof (JFun _) = ''function''"
| "typeof (JLambda _ _) = ''function''"
| "typeof _ = ''object''"

text \<open>
  Reading a property \<open>v.k\<close>. On \<open>undefined\<close> and \<open>null\<close> the read throws a TypeError
  (\<open>None\<close>); on a plain object it yields the property or \<open>undefined\<close>; every other value
  has none of the property names this package reads.
\<close>

fun js_get :: "jsval \<Rightarrow> string \<Rightarrow> jsval option" where
  "js_get JUndefined k = None"
| "js_get JNull k = None"
| "js_get (JObj kvs) k = Some (case map_of kvs k of None \<Rightarrow> JUndefined | Some v \<Rightarrow> v)"
| "js_get _ k = Some JUndefined"

text \<open>
  \<open>String.prototype.trim\<close> removes white space and line terminators from both ends.
  Within U+0000 to U+00FF these are TAB, LF, VT, FF, CR, SP and NBSP.
\<close>

definition is_js_whitespace :: "char \<Rightarrow> bool" where
  "is_js_whitespace c \<longleftrightarrow>
     c \<in> set [CHR 0x09, CHR 0x0A, CHR 0x0B, CHR 0x0C, CHR 0x0D, CHR 0x20, CHR 0xA0]"

definition trim :: "string \<Rightarrow> string" where
  "trim s = rev (dropWhile is_js_whitespace (rev (dropWhile is_js_whitespace s)))"

text \<open>
  What the code takes from the JavaScript engine. \<open>JSON_parse\<close> is \<open>JSON.parse\<close>
  (\<open>None\<close> when it throws a SyntaxError); \<open>ToString\<close> is the conversion \<open>String(v)\<close>
  applies to a value that is not already a string.
\<close>

record js_runtime =
  JSON_parse :: "string \<Rightarrow> jsval option"
  ToString :: "jsval \<Rightarrow> string"

fun js_String :: "js_runtime \<Rightarrow> jsval \<Rightarrow> string" where
  "js_String rt (JStr s) = s"
| "js_String rt v = ToString rt v"

section \<open>The wrapped library, as the client module sees it\<close>

text \<open>
  \<open>ee.data.authenticateViaPrivateKey\<close>, \<open>ee.data.authenticateViaOauth\<close> and
  \<open>ee.initialize\<close> take a success and a failure callback. The client wraps every such
  call in \<open>new Promise((resolve, reject) => ...)\<close>, passing \<open>() => resolve()\<close> and
  \<open>(error) => reject(error)\<close>. What the library does with them is one of:
\<close>

datatype cb_outcome =
    CallsSuccess          \<comment> \<open>invokes the success callback\<close>
  | CallsError jsval      \<comment> \<open>invokes the failure callback with this value\<close>
  | ThrowsSync jsval      \<comment> \<open>throws before invoking either\<close>
  | NeverCalls            \<comment> \<open>returns and invokes neither\<close>

text \<open>A promise, settled or not.\<close>

datatype 'a promise = Fulfilled 'a | Rejected jsval | Pending

text \<open>
  The promise built around a callback-style call: \<open>resolve()\<close> fulfils it, \<open>reject(e)\<close>
  rejects it, an exception thrown inside the executor rejects it with the thrown value,
  and otherwise it stays pending.
\<close>

fun callback_promise :: "cb_outcome \<Rightarrow> unit promise" where
  "callback_promise CallsSuccess = Fulfilled ()"
| "callback_promise (CallsError e) = Rejected e"
| "callback_promise (ThrowsSync e) = Rejected e"
| "callback_promise NeverCalls = Pending"

text \<open>
  The library keeps state of its own (\<open>'s\<close>); every call may read and change it. The
  arguments are the ones the source passes, in the source's order, without the two
  callbacks.
\<close>

record 's ee_lib =
  authenticateViaPrivateKey :: "jsval \<Rightarrow> 's \<Rightarrow> cb_outcome \<times> 's"
  authenticateViaOauth :: "jsval \<Rightarrow> jsval \<Rightarrow> jsval \<Rightarrow> 's \<Rightarrow> cb_outcome \<times> 's"
  setAuthToken :: "jsval list \<Rightarrow> 's \<Rightarrow> jsval option \<times> 's"
  initialize :: "jsval \<Rightarrow> jsval \<Rightarrow> jsval \<Rightarrow> jsval \<Rightarrow> 's \<Rightarrow> cb_outcome \<times> 's"

text \<open>
  One entry of the log of calls into the library: the call with its arguments and what
  the library did. \<open>setAuthToken\<close> is synchronous: it returns (\<open>None\<close>) or throws.
\<close>

datatype ee_event =
    AuthenticateViaPrivateKey jsval cb_outcome
  | AuthenticateViaOauth jsval jsval jsval cb_outcome
  | SetAuthToken "jsval list" "jsval option"
  | Initialize jsval jsval jsval jsval cb_outcome

text \<open>What one asynchronous function of the client did: the calls it made, in order,
  the library's state afterwards, and the promise it returned. When that promise is
  fulfilled its value is the \<open>ee\<close> object itself, which the model does not carry.\<close>

record 's run =
  events :: "ee_event list"
  lib_state :: "'s"
  settled :: "unit promise"

section \<open>client.ts\<close>

text \<open>
  The options of \<open>initEarthEngine\<close>. A field that is absent is \<open>JUndefined\<close>.
  \<open>tokenRetriever\<close> is a function of the caller's returning a promise of the token;
  the model holds the promise a call to it returns (a retriever that throws rejects the
  surrounding asynchronous function just as a rejected promise does).
\<close>

record EarthEngineInitOptions =
  privateKeyJson :: jsval
  email :: jsval
  privateKey :: jsval
  tokenRetriever :: "jsval promise option"
  project :: jsval
  baseUrl :: jsval

definition parse_error :: jsval where
  "parse_error = JError ''Failed to parse service account JSON key''"

text \<open>
  \<open>parseServiceAccountKey\<close>: a string is parsed and its three properties read, any
  exception inside the \<open>try\<close> block (the SyntaxError of \<open>JSON.parse\<close>, the TypeError of
  reading a property of \<open>null\<close>) is replaced by the fixed error; any other input is
  returned as it is.
\<close>

definition parseServiceAccountKey :: "js_runtime \<Rightarrow> jsval \<Rightarrow> jsval + jsval" where
  "parseServiceAccountKey rt keyInput =
     (if typeof keyInput = ''string'' then
        (case keyInput of
           JStr s \<Rightarrow>
             (case JSON_parse rt s of
                None \<Rightarrow> Inl parse_error
              | Some parsed \<Rightarrow>
                  (case (js_get parsed ''client_email'', js_get parsed ''private_key'',
                         js_get parsed ''project_id'') of
                     (Some e, Some k, Some p) \<Rightarrow>
                       Inr (JObj [(''email'', e), (''privateKey'', k), (''projectId'', p)])
                   | _ \<Rightarrow> Inl parse_error))
         | _ \<Rightarrow> Inl parse_error)
      else Inr keyInput)"

text \<open>The property \<open>project_id\<close> is added to the credentials object after its creation.\<close>

definition credentials_object :: "jsval \<Rightarrow> jsval \<Rightarrow> jsval option \<Rightarrow> jsval" where
  "credentials_object client_email private_key project_id =
     JObj ([(''client_email'', client_email), (''private_key'', private_key)] @
           (case project_id of None \<Rightarrow> [] | Some p \<Rightarrow> [(''project_id'', p)]))"

text \<open>\<open>project.trim()\<close>, reached only where \<open>typeof project === 'string'\<close>.\<close>

fun trim_value :: "jsval \<Rightarrow> jsval" where
  "trim_value (JStr s) = JStr (trim s)"
| "trim_value v = v"

definition await_authenticateViaPrivateKey ::
  "'s ee_lib \<Rightarrow> jsval \<Rightarrow> 's \<Rightarrow> 's run" where
  "await_authenticateViaPrivateKey lib credentials s =
     (case authenticateViaPrivateKey lib credentials s of
        (out, s') \<Rightarrow>
          \<lparr>events = [AuthenticateViaPrivateKey credentials out], lib_state = s',
           settled = callback_promise out\<rparr>)"

text \<open>
  The first half of \<open>initEarthEngine\<close>: the chain \<open>if (email && privateKey) ... else if
  (privateKeyJson) ... else if (tokenRetriever) ...\<close>. An exception thrown here rejects the
  promise of the asynchronous function.
\<close>

definition authenticate ::
  "js_runtime \<Rightarrow> 's ee_lib \<Rightarrow> EarthEngineInitOptions \<Rightarrow> 's \<Rightarrow> 's run" where
  "authenticate rt lib options s =
     (if js_truthy (email options) \<and> js_truthy (privateKey options) then
        await_authenticateViaPrivateKey lib
          (credentials_object (email options) (privateKey options)
             (if js_truthy (project options) \<and> typeof (project options) = ''string''
              then Some (trim_value (project options)) else None)) s
      else if js_truthy (privateKeyJson options) then
        (case parseServiceAccountKey rt (privateKeyJson options) of
           Inl e \<Rightarrow> \<lparr>events = [], lib_state = s, settled = Rejected e\<rparr>
         | Inr parsedCredentials \<Rightarrow>
             (case (js_get parsedCredentials ''email'', js_get parsedCredentials ''privateKey'',
                    js_get parsedCredentials ''projectId'') of
                (Some e, Some k, Some p) \<Rightarrow>
                  await_authenticateViaPrivateKey lib
                    (credentials_object e k
                       (if js_truthy (project options) \<and> typeof (project options) = ''string''
                        then Some (trim_value (project options))
                        else if js_truthy p then Some p else None)) s
              | _ \<Rightarrow> \<lparr>events = [], lib_state = s, settled = Rejected JTypeError\<rparr>))
      else
        (case tokenRetriever options of
           Some retrieved \<Rightarrow>
             (case retrieved of
                Fulfilled token \<Rightarrow>
                  (let args = [JStr '''', JStr ''Bearer'', token, JNum (Finite 3600), JArr [],
                               JUndefined, JBool False]
                   in case setAuthToken lib args s of
                        (thrown, s') \<Rightarrow>
                          \<lparr>events = [SetAuthToken args thrown], lib_state = s',
                           settled = (case thrown of None \<Rightarrow> Fulfilled ()
                                      | Some e \<Rightarrow> Rejected e)\<rparr>)
              | Rejected e \<Rightarrow> \<lparr>events = [], lib_state = s, settled = Rejected e\<rparr>
              | Pending \<Rightarrow> \<lparr>events = [], lib_state = s, settled = Pending\<rparr>)
         | None \<Rightarrow> \<lparr>events = [], lib_state = s, settled = Fulfilled ()\<rparr>))"

definition project_type_error :: "jsval \<Rightarrow> jsval" where
  "project_type_error p = JError (''Project must be a string, got '' @ typeof p)"

text \<open>
  The second half: the promise around \<open>ee.initialize\<close>. \<open>x || null\<close> is \<open>x\<close> when \<open>x\<close>
  is truthy and \<open>null\<close> otherwise.
\<close>

definition initialize_step ::
  "js_runtime \<Rightarrow> 's ee_lib \<Rightarrow> EarthEngineInitOptions \<Rightarrow> 's \<Rightarrow> 's run" where
  "initialize_step rt lib options s =
     (if js_truthy (project options) \<and> typeof (project options) \<noteq> ''string'' then
        \<lparr>events = [], lib_state = s, settled = Rejected (project_type_error (project options))\<rparr>
      else
        (let projectValue =
               (if js_truthy (project options) then
                  (if js_truthy (trim_value (project options))
                   then trim_value (project options) else JNull)
                else JNull);
             baseUrlValue =
               (if js_truthy (baseUrl options)
                then JStr (trim (js_String rt (baseUrl options))) else JNull)
         in case initialize lib baseUrlValue JNull JNull projectValue s of
              (out, s') \<Rightarrow>
                \<lparr>events = [Initialize baseUrlValue JNull JNull projectValue out],
                 lib_state = s', settled = callback_promise out\<rparr>))"

text \<open>
  Two awaited steps in sequence: the second starts only once the first promise is
  fulfilled; a rejection ends the function with that rejection, and a promise that never
  settles suspends it for ever.
\<close>

definition sequence :: "'s run \<Rightarrow> ('s \<Rightarrow> 's run) \<Rightarrow> 's run" where
  "sequence first next =
     (case settled first of
        Fulfilled _ \<Rightarrow>
          (let second = next (lib_state first)
           in second\<lparr>events := events first @ events second\<rparr>)
      | Rejected e \<Rightarrow> first
      | Pending \<Rightarrow> first)"

definition initEarthEngine ::
  "js_runtime \<Rightarrow> 's ee_lib \<Rightarrow> EarthEngineInitOptions \<Rightarrow> 's \<Rightarrow> 's run" where
  "initEarthEngine rt lib options s =
     sequence (authenticate rt lib options s) (initialize_step rt lib options)"

text \<open>
  The options of \<open>initWithOAuth\<close>; \<open>scopes\<close> defaults to \<open>DEFAULT_SCOPES\<close> when it is
  \<open>undefined\<close>.
\<close>

record OAuthOptions =
  clientId :: jsval
  scopes :: jsval
  project :: jsval

definition DEFAULT_SCOPES :: jsval where
  "DEFAULT_SCOPES = JArr [JStr ''https://www.googleapis.com/auth/earthengine'']"

definition oauth_authenticate :: "'s ee_lib \<Rightarrow> OAuthOptions \<Rightarrow> 's \<Rightarrow> 's run" where
  "oauth_authenticate lib options s =
     (let scopes' = (if scopes options = JUndefined then DEFAULT_SCOPES else scopes options)
      in case authenticateViaOauth lib (clientId options) scopes' JNull s of
           (out, s') \<Rightarrow>
             \<lparr>events = [AuthenticateViaOauth (clientId options) scopes' JNull out],
              lib_state = s', settled = callback_promise out\<rparr>)"

text \<open>
  \<open>project && typeof project === 'string' ? project.trim() : null\<close>: the condition is
  truthy exactly when \<open>project\<close> is truthy and a string.
\<close>

definition oauth_initialize_step :: "'s ee_lib \<Rightarrow> OAuthOptions \<Rightarrow> 's \<Rightarrow> 's run" where
  "oauth_initialize_step lib options s =
     (let projectValue =
            (if js_truthy (OAuthOptions.project options) \<and> typeof (OAuthOptions.project options) = ''string''
             then trim_value (OAuthOptions.project options) else JNull)
      in case initialize lib JNull JNull JNull projectValue s of
           (out, s') \<Rightarrow>
             \<lparr>events = [Initialize JNull JNull JNull projectValue out],
              lib_state = s', settled = callback_promise out\<rparr>)"

definition initWithOAuth :: "'s ee_lib \<Rightarrow> OAuthOptions \<Rightarrow> 's \<Rightarrow> 's run" where
  "initWithOAuth lib options s =
     sequence (oauth_authenticate lib options s) (oauth_initialize_step lib options)"

text \<open>
  \<open>isInitialized\<close> looks at \<open>ee.data.getApiBaseUrl\<close>. Reading the member yields a value
  or throws (\<open>ee.data\<close> may itself be missing); calling it returns a value or throws.
\<close>

record api_base_url =
  getApiBaseUrl_member :: "jsval + jsval"   \<comment> \<open>\<open>Inl\<close>: reading it throws\<close>
  getApiBaseUrl_call :: "jsval + jsval"     \<comment> \<open>\<open>Inl\<close>: calling it throws\<close>

text \<open>The expression inside \<open>try\<close>; \<open>&&\<close> evaluates its right operand only when the
  left one is true.\<close>

definition isInitialized_try :: "api_base_url \<Rightarrow> jsval + bool" where
  "isInitialized_try d =
     (case getApiBaseUrl_member d of
        Inl thrown \<Rightarrow> Inl thrown
      | Inr member \<Rightarrow>
          if typeof member = ''function'' then
            (case getApiBaseUrl_call d of
               Inl thrown \<Rightarrow> Inl thrown
             | Inr url \<Rightarrow> Inr (url \<noteq> JNull))
          else Inr False)"

text \<open>\<open>try { return ... } catch { return false }\<close>.\<close>

definition isInitialized :: "api_base_url \<Rightarrow> jsval + bool" where
  "isInitialized d = (case isInitialized_try d of Inl _ \<Rightarrow> Inr False | Inr b \<Rightarrow> Inr b)"

section \<open>The wrapped library, as the helpers see it\<close>

text \<open>
  A helper calls a function reached from the \<open>ee\<close> object (\<open>ee.Geometry.Point(...)\<close>,
  \<open>ee.batch.Export.image.toDrive(...)\<close>) or a method of an object the library returned
  earlier (\<open>geometry.buffer(...)\<close>). The call returns a value (\<open>Inr\<close>) or throws
  (\<open>Inl\<close>), and may change the library's state.
\<close>

datatype ee_call =
    Static string "jsval list"           \<comment> \<open>\<open>ee.<path>(args)\<close>\<close>
  | Method jsval string "jsval list"     \<comment> \<open>\<open>receiver.<name>(args)\<close>\<close>

type_synonym 's ee_api = "ee_call \<Rightarrow> 's \<Rightarrow> (jsval + jsval) \<times> 's"

text \<open>What a helper did: the library calls it made, each with the library's answer, the
  library's state afterwards, and what the helper itself returned or threw.\<close>

record 's helper_run =
  calls :: "(ee_call \<times> (jsval + jsval)) list"
  api_state :: "'s"
  outcome :: "jsval + jsval"

definition call :: "'s ee_api \<Rightarrow> ee_call \<Rightarrow> 's \<Rightarrow> 's helper_run" where
  "call ee c s = (case ee c s of (r, s') \<Rightarrow> \<lparr>calls = [(c, r)], api_state = s', outcome = r\<rparr>)"


text \<open>The value of an optional parameter or field: \<open>undefined\<close> when it is absent.\<close>

fun opt :: "('a \<Rightarrow> jsval) \<Rightarrow> 'a option \<Rightarrow> jsval" where
  "opt f None = JUndefined"
| "opt f (Some x) = f x"

text \<open>The assignment \<open>obj.k = v\<close> on a plain object.\<close>

fun js_set :: "(string \<times> jsval) list \<Rightarrow> string \<Rightarrow> jsval \<Rightarrow> (string \<times> jsval) list" where
  "js_set [] k v = [(k, v)]"
| "js_set ((k', v') # kvs) k v = (if k' = k then (k, v) # kvs else (k', v') # js_set kvs k v)"

section \<open>types.ts\<close>

text \<open>
  Images, collections, geometries, features, reducers and tasks are objects of the
  library; to this package they are values it passes on. The coordinate shapes are
  tuples and arrays of numbers.
\<close>

type_synonym EEImage = jsval
type_synonym EEGeometry = jsval
type_synonym EEFeatureCollection = jsval





definition strings_value :: "string list \<Rightarrow> jsval" where
  "strings_value names = JArr (map JStr names)"


datatype image_file_format = GeoTIFF | TFRecord

fun image_file_format_value :: "image_file_format \<Rightarrow> jsval" where
  "image_file_format_value GeoTIFF = JStr ''GeoTIFF''"
| "image_file_format_value TFRecord = JStr ''TFRecord''"

datatype table_file_format = CSV | GeoJSON | KML | KMZ | SHP

fun table_file_format_value :: "table_file_format \<Rightarrow> jsval" where
  "table_file_format_value CSV = JStr ''CSV''"
| "table_file_format_value GeoJSON = JStr ''GeoJSON''"
| "table_file_format_value KML = JStr ''KML''"
| "table_file_format_value KMZ = JStr ''KMZ''"
| "table_file_format_value SHP = JStr ''SHP''"

text \<open>The formats of a table exported to Cloud Storage: those above and \<open>'TFRecord'\<close>.\<close>

datatype cloud_table_file_format = TableFormat table_file_format | TableTFRecord

fun cloud_table_file_format_value :: "cloud_table_file_format \<Rightarrow> jsval" where
  "cloud_table_file_format_value (TableFormat f) = table_file_format_value f"
| "cloud_table_file_format_value TableTFRecord = JStr ''TFRecord''"

record BaseExportOptions =
  description :: string
  scale :: "number option"
  crs :: "string option"
  maxPixels :: "number option"
  region :: "EEGeometry option"

record DriveExportOptions = BaseExportOptions +
  folder :: "string option"
  fileFormat :: "image_file_format option"
  formatOptions :: "(string \<times> jsval) list option"

record CloudStorageExportOptions = BaseExportOptions +
  bucket :: string
  fileNamePrefix :: "string option"
  fileFormat :: "image_file_format option"
  formatOptions :: "(string \<times> jsval) list option"

record TableDriveExportOptions =
  description :: string
  folder :: "string option"
  fileFormat :: "table_file_format option"
  selectors :: "string list option"

record TableCloudStorageExportOptions =
  description :: string
  bucket :: string
  fileNamePrefix :: "string option"
  fileFormat :: "cloud_table_file_format option"
  selectors :: "string list option"

text \<open>
  \<open>Partial<Omit<DriveExportOptions, 'description' | 'folder' | 'fileFormat'>>\<close>, the
  options of \<open>exportImageToAsset\<close>.
\<close>

record AssetExportOptions =
  scale :: "number option"
  crs :: "string option"
  maxPixels :: "number option"
  region :: "EEGeometry option"
  formatOptions :: "(string \<times> jsval) list option"

section \<open>helpers/geometry.ts\<close>


















section \<open>helpers/images.ts\<close>












section \<open>helpers/exports.ts\<close>

text \<open>
  Each export helper builds the record \<open>exportOptions\<close> and passes it to the library's
  export function; the model names the record \<open>..._options\<close>.
  \<open>set_if_truthy k v\<close> is the statement \<open>if (v) exportOptions.k = v\<close>.
\<close>

definition set_if_truthy ::
  "string \<Rightarrow> jsval \<Rightarrow> (string \<times> jsval) list \<Rightarrow> (string \<times> jsval) list" where
  "set_if_truthy k v exportOptions = (if js_truthy v then js_set exportOptions k v else exportOptions)"

text \<open>A default in a destructuring pattern (\<open>fileFormat = 'GeoTIFF'\<close>) replaces
  \<open>undefined\<close> only.\<close>

definition with_default :: "jsval \<Rightarrow> jsval \<Rightarrow> jsval" where
  "with_default v d = (if v = JUndefined then d else v)"

definition exportImageToDrive_options ::
  "EEImage \<Rightarrow> DriveExportOptions \<Rightarrow> (string \<times> jsval) list" where
  "exportImageToDrive_options image' options =
     (let description' = JStr (BaseExportOptions.description options);
          folder' = opt JStr (DriveExportOptions.folder options);
          scale' = opt JNum (BaseExportOptions.scale options);
          crs' = opt JStr (BaseExportOptions.crs options);
          maxPixels' = opt JNum (BaseExportOptions.maxPixels options);
          region' = opt id (BaseExportOptions.region options);
          fileFormat' = with_default
             (opt image_file_format_value (DriveExportOptions.fileFormat options))
             (JStr ''GeoTIFF'');
          formatOptions' = opt JObj (DriveExportOptions.formatOptions options);
          exportOptions = [(''image'', image'), (''description'', description'),
                           (''fileFormat'', fileFormat')];
          exportOptions = set_if_truthy ''folder'' folder' exportOptions;
          exportOptions = set_if_truthy ''scale'' scale' exportOptions;
          exportOptions = set_if_truthy ''crs'' crs' exportOptions;
          exportOptions = set_if_truthy ''maxPixels'' maxPixels' exportOptions;
          exportOptions = set_if_truthy ''region'' region' exportOptions;
          exportOptions = set_if_truthy ''formatOptions'' formatOptions' exportOptions
      in exportOptions)"

definition exportImageToDrive ::
  "'s ee_api \<Rightarrow> EEImage \<Rightarrow> DriveExportOptions \<Rightarrow> 's \<Rightarrow> 's helper_run" where
  "exportImageToDrive ee image' options =
     call ee (Static ''batch.Export.image.toDrive''
                [JObj (exportImageToDrive_options image' options)])"

definition exportImageToCloudStorage_options ::
  "EEImage \<Rightarrow> CloudStorageExportOptions \<Rightarrow> (string \<times> jsval) list" where
  "exportImageToCloudStorage_options image' options =
     (let description' = JStr (BaseExportOptions.description options);
          bucket' = JStr (CloudStorageExportOptions.bucket options);
          fileNamePrefix' = opt JStr (CloudStorageExportOptions.fileNamePrefix options);
          scale' = opt JNum (BaseExportOptions.scale options);
          crs' = opt JStr (BaseExportOptions.crs options);
          maxPixels' = opt JNum (BaseExportOptions.maxPixels options);
          region' = opt id (BaseExportOptions.region options);
          fileFormat' = with_default
             (opt image_file_format_value (CloudStorageExportOptions.fileFormat options))
             (JStr ''GeoTIFF'');
          formatOptions' = opt JObj (CloudStorageExportOptions.formatOptions options);
          exportOptions = [(''image'', image'), (''description'', description'),
                           (''bucket'', bucket'), (''fileFormat'', fileFormat')];
          exportOptions = set_if_truthy ''fileNamePrefix'' fileNamePrefix' exportOptions;
          exportOptions = set_if_truthy ''scale'' scale' exportOptions;
          exportOptions = set_if_truthy ''crs'' crs' exportOptions;
          exportOptions = set_if_truthy ''maxPixels'' maxPixels' exportOptions;
          exportOptions = set_if_truthy ''region'' region' exportOptions;
          exportOptions = set_if_truthy ''formatOptions'' formatOptions' exportOptions
      in exportOptions)"

definition exportImageToCloudStorage ::
  "'s ee_api \<Rightarrow> EEImage \<Rightarrow> CloudStorageExportOptions \<Rightarrow> 's \<Rightarrow> 's helper_run" where
  "exportImageToCloudStorage ee image' options =
     call ee (Static ''batch.Export.image.toCloudStorage''
                [JObj (exportImageToCloudStorage_options image' options)])"

definition exportTableToDrive_options ::
  "EEFeatureCollection \<Rightarrow> TableDriveExportOptions \<Rightarrow> (string \<times> jsval) list" where
  "exportTableToDrive_options collection options =
     (let description' = JStr (TableDriveExportOptions.description options);
          folder' = opt JStr (TableDriveExportOptions.folder options);
          fileFormat' = with_default
             (opt table_file_format_value (TableDriveExportOptions.fileFormat options))
             (JStr ''CSV'');
          selectors' = opt strings_value (TableDriveExportOptions.selectors options);
          exportOptions = [(''collection'', collection), (''description'', description'),
                           (''fileFormat'', fileFormat')];
          exportOptions = set_if_truthy ''folder'' folder' exportOptions;
          exportOptions = set_if_truthy ''selectors'' selectors' exportOptions
      in exportOptions)"

definition exportTableToDrive ::
  "'s ee_api \<Rightarrow> EEFeatureCollection \<Rightarrow> TableDriveExportOptions \<Rightarrow> 's \<Rightarrow> 's helper_run" where
  "exportTableToDrive ee collection options =
     call ee (Static ''batch.Export.table.toDrive''
                [JObj (exportTableToDrive_options collection options)])"

definition exportTableToCloudStorage_options ::
  "EEFeatureCollection \<Rightarrow> TableCloudStorageExportOptions
     \<Rightarrow> (string \<times> jsval) list" where
  "exportTableToCloudStorage_options collection options =
     (let description' = JStr (TableCloudStorageExportOptions.description options);
          bucket' = JStr (TableCloudStorageExportOptions.bucket options);
          fileNamePrefix' = opt JStr (TableCloudStorageExportOptions.fileNamePrefix options);
          fileFormat' = with_default
             (opt cloud_table_file_format_value
                (TableCloudStorageExportOptions.fileFormat options))
             (JStr ''CSV'');
          selectors' = opt strings_value (TableCloudStorageExportOptions.selectors options);
          exportOptions = [(''collection'', collection), (''description'', description'),
                           (''bucket'', bucket'), (''fileFormat'', fileFormat')];
          exportOptions = set_if_truthy ''fileNamePrefix'' fileNamePrefix' exportOptions;
          exportOptions = set_if_truthy ''selectors'' selectors' exportOptions
      in exportOptions)"

definition exportTableToCloudStorage ::
  "'s ee_api \<Rightarrow> EEFeatureCollection \<Rightarrow> TableCloudStorageExportOptions \<Rightarrow> 's
     \<Rightarrow> 's helper_run" where
  "exportTableToCloudStorage ee collection options =
     call ee (Static ''batch.Export.table.toCloudStorage''
                [JObj (exportTableToCloudStorage_options collection options)])"

text \<open>\<open>options\<close> defaults to \<open>{}\<close>; \<open>formatOptions\<close> is not read.\<close>

definition no_asset_options :: AssetExportOptions where
  "no_asset_options =
     \<lparr>AssetExportOptions.scale = None, AssetExportOptions.crs = None,
      AssetExportOptions.maxPixels = None, AssetExportOptions.region = None,
      AssetExportOptions.formatOptions = None\<rparr>"

definition exportImageToAsset_options ::
  "EEImage \<Rightarrow> string \<Rightarrow> string \<Rightarrow> AssetExportOptions option
     \<Rightarrow> (string \<times> jsval) list" where
  "exportImageToAsset_options image' description' assetId options =
     (let options' = (case options of None \<Rightarrow> no_asset_options | Some given \<Rightarrow> given);
          scale' = opt JNum (AssetExportOptions.scale options');
          crs' = opt JStr (AssetExportOptions.crs options');
          maxPixels' = opt JNum (AssetExportOptions.maxPixels options');
          region' = opt id (AssetExportOptions.region options');
          exportOptions = [(''image'', image'), (''description'', JStr description'),
                           (''assetId'', JStr assetId)];
          exportOptions = set_if_truthy ''scale'' scale' exportOptions;
          exportOptions = set_if_truthy ''crs'' crs' exportOptions;
          exportOptions = set_if_truthy ''maxPixels'' maxPixels' exportOptions;
          exportOptions = set_if_truthy ''region'' region' exportOptions
      in exportOptions)"

definition exportImageToAsset ::
  "'s ee_api \<Rightarrow> EEImage \<Rightarrow> string \<Rightarrow> string \<Rightarrow> AssetExportOptions option \<Rightarrow> 's
     \<Rightarrow> 's helper_run" where
  "exportImageToAsset ee image' description' assetId options =
     call ee (Static ''batch.Export.image.toAsset''
                [JObj (exportImageToAsset_options image' description' assetId options)])"



section \<open>All helpers at once\<close>




text \<open>
  The optional fields of each options record, as the interfaces of \<open>types.ts\<close> declare
  them (\<open>k?: ...\<close>): the key and the value, for those that were given.
\<close>

fun given :: "string \<Rightarrow> ('a \<Rightarrow> jsval) \<Rightarrow> 'a option \<Rightarrow> (string \<times> jsval) list" where
  "given k f None = []"
| "given k f (Some x) = [(k, f x)]"

definition base_optional_fields :: "'a BaseExportOptions_scheme \<Rightarrow> (string \<times> jsval) list" where
  "base_optional_fields options =
     given ''scale'' JNum (BaseExportOptions.scale options) @
     given ''crs'' JStr (BaseExportOptions.crs options) @
     given ''maxPixels'' JNum (BaseExportOptions.maxPixels options) @
     given ''region'' id (BaseExportOptions.region options)"

definition drive_optional_fields :: "DriveExportOptions \<Rightarrow> (string \<times> jsval) list" where
  "drive_optional_fields options =
     base_optional_fields options @
     given ''folder'' JStr (DriveExportOptions.folder options) @
     given ''fileFormat'' image_file_format_value (DriveExportOptions.fileFormat options) @
     given ''formatOptions'' JObj (DriveExportOptions.formatOptions options)"

definition cloud_storage_optional_fields ::
  "CloudStorageExportOptions \<Rightarrow> (string \<times> jsval) list" where
  "cloud_storage_optional_fields options =
     base_optional_fields options @
     given ''fileNamePrefix'' JStr (CloudStorageExportOptions.fileNamePrefix options) @
     given ''fileFormat'' image_file_format_value
       (CloudStorageExportOptions.fileFormat options) @
     given ''formatOptions'' JObj (CloudStorageExportOptions.formatOptions options)"

definition table_drive_optional_fields ::
  "TableDriveExportOptions \<Rightarrow> (string \<times> jsval) list" where
  "table_drive_optional_fields options =
     given ''folder'' JStr (TableDriveExportOptions.folder options) @
     given ''fileFormat'' table_file_format_value (TableDriveExportOptions.fileFormat options) @
     given ''selectors'' strings_value (TableDriveExportOptions.selectors options)"

definition table_cloud_storage_optional_fields ::
  "TableCloudStorageExportOptions \<Rightarrow> (string \<times> jsval) list" where
  "table_cloud_storage_optional_fields options =
     given ''fileNamePrefix'' JStr (TableCloudStorageExportOptions.fileNamePrefix options) @
     given ''fileFormat'' cloud_table_file_format_value
       (TableCloudStorageExportOptions.fileFormat options) @
     given ''selectors'' strings_value (TableCloudStorageExportOptions.selectors options)"

definition asset_optional_fields :: "AssetExportOptions option \<Rightarrow> (string \<times> jsval) list" where
  "asset_optional_fields options =
     (case options of
        None \<Rightarrow> []
      | Some options' \<Rightarrow>
          given ''scale'' JNum (AssetExportOptions.scale options') @
          given ''crs'' JStr (AssetExportOptions.crs options') @
          given ''maxPixels'' JNum (AssetExportOptions.maxPixels options') @
          given ''region'' id (AssetExportOptions.region options') @
          given ''formatOptions'' JObj (AssetExportOptions.formatOptions options'))"








text \<open>A library for the examples: every call returns a fresh object, numbered by the
  count of calls so far.\<close>

definition mock_api :: "nat ee_api" where
  "mock_api c n = (Inr (JRef n), Suc n)"



section \<open>The corresponding library calls\<close>







text \<open>Option records for the examples: the export of the documentation comment of
  \<open>exportImageToDrive\<close> (without a region), the same with values that are falsy, and
  their counterparts for the other export helpers.\<close>

definition example_drive_options :: DriveExportOptions where
  "example_drive_options =
     \<lparr>BaseExportOptions.description = ''my_export'',
      BaseExportOptions.scale = Some (Finite 30),
      BaseExportOptions.crs = None,
      BaseExportOptions.maxPixels = None,
      BaseExportOptions.region = None,
      DriveExportOptions.folder = Some ''EarthEngine'',
      DriveExportOptions.fileFormat = None,
      DriveExportOptions.formatOptions = None\<rparr>"

definition falsy_drive_options :: DriveExportOptions where
  "falsy_drive_options =
     \<lparr>BaseExportOptions.description = ''my_export'',
      BaseExportOptions.scale = Some (Finite 0),
      BaseExportOptions.crs = None,
      BaseExportOptions.maxPixels = Some (Finite 0),
      BaseExportOptions.region = None,
      DriveExportOptions.folder = Some '''',
      DriveExportOptions.fileFormat = None,
      DriveExportOptions.formatOptions = None\<rparr>"

definition example_cloud_storage_options :: CloudStorageExportOptions where
  "example_cloud_storage_options =
     \<lparr>BaseExportOptions.description = ''my_export'',
      BaseExportOptions.scale = Some (Finite 30),
      BaseExportOptions.crs = None,
      BaseExportOptions.maxPixels = None,
      BaseExportOptions.region = None,
      CloudStorageExportOptions.bucket = ''my-bucket'',
      CloudStorageExportOptions.fileNamePrefix = Some ''exports/landsat'',
      CloudStorageExportOptions.fileFormat = None,
      CloudStorageExportOptions.formatOptions = None\<rparr>"

definition falsy_table_drive_options :: TableDriveExportOptions where
  "falsy_table_drive_options =
     \<lparr>TableDriveExportOptions.description = ''my_features'',
      TableDriveExportOptions.folder = Some '''',
      TableDriveExportOptions.fileFormat = None,
      TableDriveExportOptions.selectors = None\<rparr>"

definition example_table_cloud_storage_options :: TableCloudStorageExportOptions where
  "example_table_cloud_storage_options =
     \<lparr>TableCloudStorageExportOptions.description = ''my_features'',
      TableCloudStorageExportOptions.bucket = ''my-bucket'',
      TableCloudStorageExportOptions.fileNamePrefix = Some '''',
      TableCloudStorageExportOptions.fileFormat = None,
      TableCloudStorageExportOptions.selectors = None\<rparr>"

definition falsy_asset_options :: AssetExportOptions where
  "falsy_asset_options =
     \<lparr>AssetExportOptions.scale = Some (Finite 0),
      AssetExportOptions.crs = None,
      AssetExportOptions.maxPixels = Some NaN,
      AssetExportOptions.region = None,
      AssetExportOptions.formatOptions = None\<rparr>"

definition format_asset_options :: AssetExportOptions where
  "format_asset_options =
     \<lparr>AssetExportOptions.scale = Some (Finite 30),
      AssetExportOptions.crs = None,
      AssetExportOptions.maxPixels = None,
      AssetExportOptions.region = None,
      AssetExportOptions.formatOptions = Some [(''cloudOptimized'', JBool True)]\<rparr>"

section \<open>Reading the log of library calls\<close>

text \<open>
  Predicates on log entries. A log entry is \<open>completed\<close> when the library signalled
  success (or, for the synchronous call, returned); \<open>delivered_error\<close> is the value the
  library handed to the failure callback, if it did.
\<close>

fun is_initialize :: "ee_event \<Rightarrow> bool" where
  "is_initialize (Initialize _ _ _ _ _) = True"
| "is_initialize _ = False"

fun is_authentication :: "ee_event \<Rightarrow> bool" where
  "is_authentication (Initialize _ _ _ _ _) = False"
| "is_authentication _ = True"

fun completed :: "ee_event \<Rightarrow> bool" where
  "completed (AuthenticateViaPrivateKey _ out) = (out = CallsSuccess)"
| "completed (AuthenticateViaOauth _ _ _ out) = (out = CallsSuccess)"
| "completed (SetAuthToken _ thrown) = (thrown = None)"
| "completed (Initialize _ _ _ _ out) = (out = CallsSuccess)"

fun delivered_error :: "ee_event \<Rightarrow> jsval option" where
  "delivered_error (AuthenticateViaPrivateKey _ (CallsError e)) = Some e"
| "delivered_error (AuthenticateViaOauth _ _ _ (CallsError e)) = Some e"
| "delivered_error (Initialize _ _ _ _ (CallsError e)) = Some e"
| "delivered_error _ = None"

text \<open>
  What the authentication half of either entry point leaves behind: no call, or one
  authentication call whose outcome decides the promise. Likewise for the initialization
  half and \<open>ee.initialize\<close>.
\<close>

definition auth_ok :: "'s run \<Rightarrow> bool" where
  "auth_ok a \<longleftrightarrow> events a = [] \<or>
   (\<exists>ev. events a = [ev] \<and> is_authentication ev \<and>
      (settled a = Fulfilled () \<longrightarrow> completed ev) \<and>
      (\<forall>e. delivered_error ev = Some e \<longrightarrow> settled a = Rejected e))"

definition init_ok :: "'s run \<Rightarrow> bool" where
  "init_ok i \<longleftrightarrow> events i = [] \<or>
   (\<exists>ev. events i = [ev] \<and> is_initialize ev \<and>
      (\<forall>e. delivered_error ev = Some e \<longrightarrow> settled i = Rejected e))"

section \<open>Test doubles\<close>

text \<open>
  The test suite replaces the library by mocks whose callbacks are scripted
  (\<open>tests/client.test.ts\<close>). \<open>mock_ee auth init\<close> answers every authentication call
  with \<open>auth\<close> and \<open>ee.initialize\<close> with \<open>init\<close>; its state counts the calls it has
  received. \<open>mock_runtime\<close> parses the two JSON texts used below and rejects every other
  text.
\<close>

definition mock_ee :: "cb_outcome \<Rightarrow> cb_outcome \<Rightarrow> nat ee_lib" where
  "mock_ee auth init =
     \<lparr>authenticateViaPrivateKey = (\<lambda>_ n. (auth, Suc n)),
      authenticateViaOauth = (\<lambda>_ _ _ n. (auth, Suc n)),
      setAuthToken = (\<lambda>_ n. (None, Suc n)),
      initialize = (\<lambda>_ _ _ _ n. (init, Suc n))\<rparr>"

definition mock_runtime :: js_runtime where
  \<open>mock_runtime =
     \<lparr>JSON_parse = (\<lambda>s.
        if s = ''{"client_email":"json@example.com","private_key":"JSON"}''
        then Some (JObj [(''client_email'', JStr ''json@example.com''),
                         (''private_key'', JStr ''JSON'')])
        else if s = ''null'' then Some JNull
        else None),
      ToString = (\<lambda>_. ''[object Object]'')\<rparr>\<close>

definition no_options :: EarthEngineInitOptions where
  "no_options =
     \<lparr>privateKeyJson = JUndefined, email = JUndefined, privateKey = JUndefined,
      tokenRetriever = None, EarthEngineInitOptions.project = JUndefined, baseUrl = JUndefined\<rparr>"

section \<open>Properties of client.ts\<close>

subsection \<open>The shape of a run\<close>

lemma await_auth_ok: "auth_ok (await_authenticateViaPrivateKey lib c s)"
proof (cases "authenticateViaPrivateKey lib c s")
  case (Pair out s')
  then show ?thesis
    by (cases out) (simp_all add: await_authenticateViaPrivateKey_def auth_ok_def)
qed

lemma auth_ok_no_events: "auth_ok \<lparr>events = [], lib_state = s, settled = p\<rparr>"
  by (simp add: auth_ok_def)

lemma auth_ok_setAuthToken:
  "auth_ok \<lparr>events = [SetAuthToken args thrown], lib_state = s',
            settled = (case thrown of None \<Rightarrow> Fulfilled () | Some e \<Rightarrow> Rejected e)\<rparr>"
  by (cases thrown) (simp_all add: auth_ok_def)

lemma authenticate_events: "auth_ok (authenticate rt lib options s)"
  unfolding authenticate_def
  by (simp add: await_auth_ok auth_ok_no_events auth_ok_setAuthToken Let_def
      split: sum.splits option.splits prod.splits promise.splits)

lemma init_ok_call:
  "init_ok (case initialize lib b t x p s of
             (out, s') \<Rightarrow> \<lparr>events = [Initialize b t x p out], lib_state = s',
                           settled = callback_promise out\<rparr>)"
proof (cases "initialize lib b t x p s")
  case (Pair out s')
  then show ?thesis by (cases out) (simp_all add: init_ok_def)
qed

lemma initialize_step_events: "init_ok (initialize_step rt lib options s)"
  unfolding initialize_step_def Let_def
  by (simp add: init_ok_call) (simp add: init_ok_def)

lemma oauth_initialize_step_events: "init_ok (oauth_initialize_step lib options s)"
  unfolding oauth_initialize_step_def Let_def
  by (simp add: init_ok_call)

lemma oauth_authenticate_events: "auth_ok (oauth_authenticate lib options s)"
proof (cases "authenticateViaOauth lib (clientId options)
   (if scopes options = JUndefined then DEFAULT_SCOPES else scopes options) JNull s")
  case (Pair out s')
  then show ?thesis
    by (cases out) (simp_all add: oauth_authenticate_def auth_ok_def Let_def)
qed

lemma authentication_not_initialize: "is_authentication ev \<Longrightarrow> \<not> is_initialize ev"
  by (cases ev) simp_all

lemma sequence_events_prefix: "\<exists>rest. events (sequence a i) = events a @ rest"
  by (cases "settled a") (simp_all add: sequence_def Let_def)

lemma sequence_not_fulfilled:
  "settled a \<noteq> Fulfilled () \<Longrightarrow> sequence a i = a"
  by (cases "settled a") (simp_all add: sequence_def)

lemma sequence_no_auth:
  "sequence \<lparr>events = [], lib_state = s, settled = Fulfilled ()\<rparr> i = i s"
  by (simp add: sequence_def Let_def)

lemma sequence_fulfilled:
  "settled a = Fulfilled () \<Longrightarrow>
   sequence a i = (i (lib_state a))\<lparr>events := events a @ events (i (lib_state a))\<rparr>"
  by (simp add: sequence_def Let_def)

lemma sequence_two_steps:
  assumes "auth_ok a" and "\<And>s. init_ok (i s)"
  shows "(events (sequence a i) = events a \<or>
       (\<exists>ev. is_initialize ev \<and> events (sequence a i) = events a @ [ev] \<and>
             settled a = Fulfilled ()))
    \<and> length (events a) \<le> 1
    \<and> (\<forall>ev \<in> set (events a).
          is_authentication ev \<and> (settled a = Fulfilled () \<longrightarrow> completed ev))
    \<and> (\<forall>e. settled a = Rejected e \<longrightarrow>
          settled (sequence a i) = Rejected e \<and> events (sequence a i) = events a)"
proof -
  have i: "init_ok (i (lib_state a))" by (rule assms(2))
  show ?thesis
  proof (cases "settled a")
    case (Fulfilled u)
    with assms(1) i show ?thesis
      by (auto simp: sequence_def auth_ok_def init_ok_def Let_def)
  next
    case (Rejected e)
    with assms(1) show ?thesis by (auto simp: sequence_def auth_ok_def)
  next
    case Pending
    with assms(1) show ?thesis by (auto simp: sequence_def auth_ok_def)
  qed
qed

lemma sequence_delivered_error:
  assumes "auth_ok a" and "\<And>s. init_ok (i s)"
    and "ev \<in> set (events (sequence a i))" and "delivered_error ev = Some e"
  shows "settled (sequence a i) = Rejected e"
proof -
  have i: "init_ok (i (lib_state a))" by (rule assms(2))
  show ?thesis
  proof (cases "settled a")
    case (Fulfilled u)
    with assms(1,3,4) i show ?thesis
      by (auto simp: sequence_def auth_ok_def init_ok_def Let_def)
  next
    case (Rejected e)
    with assms(1,3,4) show ?thesis by (auto simp: sequence_def auth_ok_def)
  next
    case Pending
    with assms(1,3,4) show ?thesis by (auto simp: sequence_def auth_ok_def)
  qed
qed

lemma js_get_truthy: "js_truthy v \<Longrightarrow> \<exists>w. js_get v k = Some w"
  by (cases v) simp_all

lemma await_auth_events:
  "\<exists>out. events (await_authenticateViaPrivateKey lib c s) = [AuthenticateViaPrivateKey c out]"
  by (cases "authenticateViaPrivateKey lib c s") (simp add: await_authenticateViaPrivateKey_def)

lemma js_get_credentials_object:
  "js_get (credentials_object e k p) ''client_email'' = Some e"
  "js_get (credentials_object e k p) ''private_key'' = Some k"
  by (simp_all add: credentials_object_def)

lemma authenticate_pair:
  assumes "js_truthy (email options) \<and> js_truthy (privateKey options)"
  shows "\<exists>credentials out.
          events (authenticate rt lib options s) = [AuthenticateViaPrivateKey credentials out] \<and>
          js_get credentials ''client_email'' = Some (email options) \<and>
          js_get credentials ''private_key'' = Some (privateKey options)"
proof -
  define c where "c = credentials_object (email options) (privateKey options)
             (if js_truthy (EarthEngineInitOptions.project options) \<and>
                 typeof (EarthEngineInitOptions.project options) = ''string''
              then Some (trim_value (EarthEngineInitOptions.project options)) else None)"
  have a: "authenticate rt lib options s = await_authenticateViaPrivateKey lib c s"
    using assms by (simp add: authenticate_def c_def)
  obtain out where "events (await_authenticateViaPrivateKey lib c s) =
      [AuthenticateViaPrivateKey c out]"
    using await_auth_events [of lib c s] by blast
  then show ?thesis
    unfolding a by (auto simp: c_def js_get_credentials_object)
qed

lemma authenticate_pair_ignores:
  assumes "js_truthy (email options) \<and> js_truthy (privateKey options)"
  shows "authenticate rt lib (options\<lparr>privateKeyJson := json, tokenRetriever := retriever\<rparr>) s
         = authenticate rt lib options s"
  using assms by (simp add: authenticate_def)

lemma initialize_step_ignores:
  "initialize_step rt lib (options\<lparr>privateKeyJson := json\<rparr>)
     = initialize_step rt lib options"
  "initialize_step rt lib (options\<lparr>tokenRetriever := retriever\<rparr>)
     = initialize_step rt lib options"
  by (simp_all add: initialize_step_def fun_eq_iff)

lemma authenticate_else:
  assumes "\<not> (js_truthy (email options) \<and> js_truthy (privateKey options))"
  shows "authenticate rt lib options s =
     (if js_truthy (privateKeyJson options) then
        (case parseServiceAccountKey rt (privateKeyJson options) of
           Inl e \<Rightarrow> \<lparr>events = [], lib_state = s, settled = Rejected e\<rparr>
         | Inr parsedCredentials \<Rightarrow>
             (case (js_get parsedCredentials ''email'', js_get parsedCredentials ''privateKey'',
                    js_get parsedCredentials ''projectId'') of
                (Some e, Some k, Some p) \<Rightarrow>
                  await_authenticateViaPrivateKey lib
                    (credentials_object e k
                       (if js_truthy (EarthEngineInitOptions.project options) \<and>
                           typeof (EarthEngineInitOptions.project options) = ''string''
                        then Some (trim_value (EarthEngineInitOptions.project options))
                        else if js_truthy p then Some p else None)) s
              | _ \<Rightarrow> \<lparr>events = [], lib_state = s, settled = Rejected JTypeError\<rparr>))
      else
        (case tokenRetriever options of
           Some retrieved \<Rightarrow>
             (case retrieved of
                Fulfilled token \<Rightarrow>
                  (let args = [JStr '''', JStr ''Bearer'', token, JNum (Finite 3600), JArr [],
                               JUndefined, JBool False]
                   in case setAuthToken lib args s of
                        (thrown, s') \<Rightarrow>
                          \<lparr>events = [SetAuthToken args thrown], lib_state = s',
                           settled = (case thrown of None \<Rightarrow> Fulfilled ()
                                      | Some e \<Rightarrow> Rejected e)\<rparr>)
              | Rejected e \<Rightarrow> \<lparr>events = [], lib_state = s, settled = Rejected e\<rparr>
              | Pending \<Rightarrow> \<lparr>events = [], lib_state = s, settled = Pending\<rparr>)
         | None \<Rightarrow> \<lparr>events = [], lib_state = s, settled = Fulfilled ()\<rparr>))"
  unfolding authenticate_def using assms by (rule if_not_P)

lemma authenticate_json:
  assumes "\<not> (js_truthy (email options) \<and> js_truthy (privateKey options))"
    and "js_truthy (privateKeyJson options)"
  shows "case parseServiceAccountKey rt (privateKeyJson options) of
           Inl e \<Rightarrow> authenticate rt lib options s =
                      \<lparr>events = [], lib_state = s, settled = Rejected e\<rparr>
         | Inr parsed \<Rightarrow>
             (\<exists>credentials out.
                events (authenticate rt lib options s) =
                  [AuthenticateViaPrivateKey credentials out] \<and>
                js_get credentials ''client_email'' = js_get parsed ''email'' \<and>
                js_get credentials ''private_key'' = js_get parsed ''privateKey'')"
proof (cases "parseServiceAccountKey rt (privateKeyJson options)")
  case (Inl e)
  with assms(2) show ?thesis by (simp add: authenticate_else [OF assms(1)])
next
  case (Inr parsed)
  have "js_truthy parsed"
    using Inr assms(2)
    by (auto simp: parseServiceAccountKey_def split: if_splits jsval.splits option.splits)
  then obtain e k p where g: "js_get parsed ''email'' = Some e"
    "js_get parsed ''privateKey'' = Some k" "js_get parsed ''projectId'' = Some p"
    using js_get_truthy by meson
  define c where "c = credentials_object e k
             (if js_truthy (EarthEngineInitOptions.project options) \<and>
                 typeof (EarthEngineInitOptions.project options) = ''string''
              then Some (trim_value (EarthEngineInitOptions.project options))
              else if js_truthy p then Some p else None)"
  have a: "authenticate rt lib options s = await_authenticateViaPrivateKey lib c s"
    using assms(2) Inr g by (simp add: authenticate_else [OF assms(1)] c_def)
  obtain out where "events (await_authenticateViaPrivateKey lib c s) =
      [AuthenticateViaPrivateKey c out]"
    using await_auth_events [of lib c s] by blast
  then show ?thesis
    unfolding a using Inr g by (auto simp: c_def js_get_credentials_object)
qed

lemma authenticate_json_ignores:
  assumes "\<not> (js_truthy (email options) \<and> js_truthy (privateKey options))"
    and "js_truthy (privateKeyJson options)"
  shows "authenticate rt lib (options\<lparr>tokenRetriever := retriever\<rparr>) s
         = authenticate rt lib options s"
proof -
  have "\<not> (js_truthy (email (options\<lparr>tokenRetriever := retriever\<rparr>)) \<and>
           js_truthy (privateKey (options\<lparr>tokenRetriever := retriever\<rparr>)))"
    using assms(1) by simp
  from authenticate_else [OF this, of rt lib s] authenticate_else [OF assms(1), of rt lib s]
    assms(2)
  show ?thesis by (simp split: sum.split option.split)
qed

lemma authenticate_token:
  assumes "\<not> (js_truthy (email options) \<and> js_truthy (privateKey options))"
    and "\<not> js_truthy (privateKeyJson options)"
  shows "case tokenRetriever options of
           Some (Fulfilled token) \<Rightarrow>
             (\<exists>thrown. events (authenticate rt lib options s) =
                [SetAuthToken [JStr '''', JStr ''Bearer'', token, JNum (Finite 3600), JArr [],
                               JUndefined, JBool False] thrown])
         | Some (Rejected e) \<Rightarrow>
             authenticate rt lib options s = \<lparr>events = [], lib_state = s, settled = Rejected e\<rparr>
         | Some Pending \<Rightarrow>
             authenticate rt lib options s = \<lparr>events = [], lib_state = s, settled = Pending\<rparr>
         | None \<Rightarrow>
             authenticate rt lib options s = \<lparr>events = [], lib_state = s, settled = Fulfilled ()\<rparr>"
  using assms(2)
  by (simp add: authenticate_else [OF assms(1)] Let_def
      split: option.splits promise.splits prod.splits)

lemmas mock_defs = mock_ee_def mock_runtime_def no_options_def initEarthEngine_def
  sequence_def authenticate_def initialize_step_def await_authenticateViaPrivateKey_def
  credentials_object_def parseServiceAccountKey_def parse_error_def project_type_error_def
  initWithOAuth_def oauth_authenticate_def oauth_initialize_step_def DEFAULT_SCOPES_def
  trim_def is_js_whitespace_def Let_def

subsection \<open>Credential priority\<close>

text \<open>
  Claim C1, as amended. The credentials are resolved in a fixed order, each test being
  one of truthiness:
  \<^item> if \<open>email\<close> and \<open>privateKey\<close> are both truthy, the first library call is
    \<open>authenticateViaPrivateKey\<close> with exactly these two values, and the whole run is the
    same whatever \<open>privateKeyJson\<close> and \<open>tokenRetriever\<close> hold;
  \<^item> otherwise, if \<open>privateKeyJson\<close> is truthy, it is parsed: either parsing fails and the
    promise is rejected with no library call, or the first library call is
    \<open>authenticateViaPrivateKey\<close> with the parsed email and key; the run is the same whatever
    \<open>tokenRetriever\<close> holds;
  \<^item> otherwise, if there is a \<open>tokenRetriever\<close>, the token it yields is the one handed to
    \<open>setAuthToken\<close> (and its rejection, or its never settling, is the run's);
  \<^item> otherwise there is no authentication call: the run is the initialization step alone.
\<close>

theorem credential_priority:
  "(js_truthy (email options) \<and> js_truthy (privateKey options) \<longrightarrow>
      (\<exists>credentials out rest.
          events (initEarthEngine rt lib options s) =
            AuthenticateViaPrivateKey credentials out # rest \<and>
          js_get credentials ''client_email'' = Some (email options) \<and>
          js_get credentials ''private_key'' = Some (privateKey options)) \<and>
      (\<forall>json retriever.
          initEarthEngine rt lib
            (options\<lparr>privateKeyJson := json, tokenRetriever := retriever\<rparr>) s
          = initEarthEngine rt lib options s))
   \<and> (\<not> (js_truthy (email options) \<and> js_truthy (privateKey options)) \<and>
      js_truthy (privateKeyJson options) \<longrightarrow>
      (case parseServiceAccountKey rt (privateKeyJson options) of
         Inl e \<Rightarrow>
           events (initEarthEngine rt lib options s) = [] \<and>
           settled (initEarthEngine rt lib options s) = Rejected e
       | Inr parsed \<Rightarrow>
           (\<exists>credentials out rest.
              events (initEarthEngine rt lib options s) =
                AuthenticateViaPrivateKey credentials out # rest \<and>
              js_get credentials ''client_email'' = js_get parsed ''email'' \<and>
              js_get credentials ''private_key'' = js_get parsed ''privateKey'')) \<and>
      (\<forall>retriever.
          initEarthEngine rt lib (options\<lparr>tokenRetriever := retriever\<rparr>) s
          = initEarthEngine rt lib options s))
   \<and> (\<not> (js_truthy (email options) \<and> js_truthy (privateKey options)) \<and>
      \<not> js_truthy (privateKeyJson options) \<longrightarrow>
      (case tokenRetriever options of
         Some (Fulfilled token) \<Rightarrow>
           (\<exists>thrown rest.
              events (initEarthEngine rt lib options s) =
                SetAuthToken [JStr '''', JStr ''Bearer'', token, JNum (Finite 3600), JArr [],
                              JUndefined, JBool False] thrown # rest)
       | Some (Rejected e) \<Rightarrow>
           events (initEarthEngine rt lib options s) = [] \<and>
           settled (initEarthEngine rt lib options s) = Rejected e
       | Some Pending \<Rightarrow>
           events (initEarthEngine rt lib options s) = [] \<and>
           settled (initEarthEngine rt lib options s) = Pending
       | None \<Rightarrow>
           initEarthEngine rt lib options s = initialize_step rt lib options s))"
proof (intro conjI impI allI)
  assume h: "js_truthy (email options) \<and> js_truthy (privateKey options)"
  from authenticate_pair [OF h, of rt lib s]
    sequence_events_prefix [of "authenticate rt lib options s" "initialize_step rt lib options"]
  show "\<exists>credentials out rest.
          events (initEarthEngine rt lib options s) =
            AuthenticateViaPrivateKey credentials out # rest \<and>
          js_get credentials ''client_email'' = Some (email options) \<and>
          js_get credentials ''private_key'' = Some (privateKey options)"
    unfolding initEarthEngine_def by auto
  show "initEarthEngine rt lib
            (options\<lparr>privateKeyJson := json, tokenRetriever := retriever\<rparr>) s
          = initEarthEngine rt lib options s" for json retriever
    unfolding initEarthEngine_def
    by (simp add: authenticate_pair_ignores [OF h] initialize_step_ignores)
next
  assume h: "\<not> (js_truthy (email options) \<and> js_truthy (privateKey options)) \<and>
      js_truthy (privateKeyJson options)"
  then have h1: "\<not> (js_truthy (email options) \<and> js_truthy (privateKey options))"
    and h2: "js_truthy (privateKeyJson options)" by blast+
  from authenticate_json [OF h1 h2, of rt lib s]
    sequence_events_prefix [of "authenticate rt lib options s" "initialize_step rt lib options"]
  show "case parseServiceAccountKey rt (privateKeyJson options) of
         Inl e \<Rightarrow>
           events (initEarthEngine rt lib options s) = [] \<and>
           settled (initEarthEngine rt lib options s) = Rejected e
       | Inr parsed \<Rightarrow>
           (\<exists>credentials out rest.
              events (initEarthEngine rt lib options s) =
                AuthenticateViaPrivateKey credentials out # rest \<and>
              js_get credentials ''client_email'' = js_get parsed ''email'' \<and>
              js_get credentials ''private_key'' = js_get parsed ''privateKey'')"
    unfolding initEarthEngine_def
    by (cases "parseServiceAccountKey rt (privateKeyJson options)")
       (auto simp: sequence_not_fulfilled)
  show "initEarthEngine rt lib (options\<lparr>tokenRetriever := retriever\<rparr>) s
          = initEarthEngine rt lib options s" for retriever
    unfolding initEarthEngine_def
    by (simp add: authenticate_json_ignores [OF h1 h2] initialize_step_ignores)
next
  assume h: "\<not> (js_truthy (email options) \<and> js_truthy (privateKey options)) \<and>
      \<not> js_truthy (privateKeyJson options)"
  then have h1: "\<not> (js_truthy (email options) \<and> js_truthy (privateKey options))"
    and h2: "\<not> js_truthy (privateKeyJson options)" by blast+
  from authenticate_token [OF h1 h2, of rt lib s]
    sequence_events_prefix [of "authenticate rt lib options s" "initialize_step rt lib options"]
  show "case tokenRetriever options of
         Some (Fulfilled token) \<Rightarrow>
           (\<exists>thrown rest.
              events (initEarthEngine rt lib options s) =
                SetAuthToken [JStr '''', JStr ''Bearer'', token, JNum (Finite 3600), JArr [],
                              JUndefined, JBool False] thrown # rest)
       | Some (Rejected e) \<Rightarrow>
           events (initEarthEngine rt lib options s) = [] \<and>
           settled (initEarthEngine rt lib options s) = Rejected e
       | Some Pending \<Rightarrow>
           events (initEarthEngine rt lib options s) = [] \<and>
           settled (initEarthEngine rt lib options s) = Pending
       | None \<Rightarrow>
           initEarthEngine rt lib options s = initialize_step rt lib options s"
    unfolding initEarthEngine_def
    by (auto simp: sequence_not_fulfilled sequence_no_auth split: option.splits promise.splits)
qed

text \<open>
  An instance: the pair of the test "should prioritize separate email/privateKey over
  privateKeyJson".
\<close>

theorem credential_priority_witness:
  \<open>js_truthy (email (no_options\<lparr>email := JStr ''separate@example.com'',
       privateKey := JStr ''SEPARATE'',
       privateKeyJson := JStr ''{"client_email":"json@example.com","private_key":"JSON"}'',
       EarthEngineInitOptions.project := JStr ''test-project''\<rparr>)) \<and>
   js_truthy (privateKey (no_options\<lparr>email := JStr ''separate@example.com'',
       privateKey := JStr ''SEPARATE'',
       privateKeyJson := JStr ''{"client_email":"json@example.com","private_key":"JSON"}'',
       EarthEngineInitOptions.project := JStr ''test-project''\<rparr>)) \<and>
   events (initEarthEngine mock_runtime (mock_ee CallsSuccess CallsSuccess)
     (no_options\<lparr>email := JStr ''separate@example.com'',
       privateKey := JStr ''SEPARATE'',
       privateKeyJson := JStr ''{"client_email":"json@example.com","private_key":"JSON"}'',
       EarthEngineInitOptions.project := JStr ''test-project''\<rparr>) 0) =
     [AuthenticateViaPrivateKey
        (JObj [(''client_email'', JStr ''separate@example.com''),
               (''private_key'', JStr ''SEPARATE''), (''project_id'', JStr ''test-project'')])
        CallsSuccess,
      Initialize JNull JNull JNull (JStr ''test-project'') CallsSuccess] \<and>
   initEarthEngine mock_runtime (mock_ee CallsSuccess CallsSuccess)
     (no_options\<lparr>email := JStr ''separate@example.com'',
       privateKey := JStr ''SEPARATE'',
       EarthEngineInitOptions.project := JStr ''test-project''\<rparr>) 0 =
   initEarthEngine mock_runtime (mock_ee CallsSuccess CallsSuccess)
     (no_options\<lparr>email := JStr ''separate@example.com'',
       privateKey := JStr ''SEPARATE'',
       privateKeyJson := JStr ''{"client_email":"json@example.com","private_key":"JSON"}'',
       EarthEngineInitOptions.project := JStr ''test-project''\<rparr>) 0\<close>
  using credential_priority
    [of \<open>no_options\<lparr>email := JStr ''separate@example.com'',
       privateKey := JStr ''SEPARATE'',
       privateKeyJson := JStr ''{"client_email":"json@example.com","private_key":"JSON"}'',
       EarthEngineInitOptions.project := JStr ''test-project''\<rparr>\<close>
        mock_runtime "mock_ee CallsSuccess CallsSuccess" 0]
  by (simp add: mock_defs)

text \<open>
  Claim C1 as stated speaks of fields that are present. An \<open>email\<close> that is present
  but empty is not truthy: the pair is passed over and the key of \<open>privateKeyJson\<close> is the
  one sent to the library.
\<close>

theorem credential_priority_counterexample:
  "email (no_options\<lparr>email := JStr '''', privateKey := JStr ''KEY'',
       privateKeyJson := JObj [(''email'', JStr ''json@example.com''),
                               (''privateKey'', JStr ''JSON'')]\<rparr>) = JStr '''' \<and>
   privateKey (no_options\<lparr>email := JStr '''', privateKey := JStr ''KEY'',
       privateKeyJson := JObj [(''email'', JStr ''json@example.com''),
                               (''privateKey'', JStr ''JSON'')]\<rparr>) = JStr ''KEY'' \<and>
   events (initEarthEngine mock_runtime (mock_ee CallsSuccess CallsSuccess)
     (no_options\<lparr>email := JStr '''', privateKey := JStr ''KEY'',
       privateKeyJson := JObj [(''email'', JStr ''json@example.com''),
                               (''privateKey'', JStr ''JSON'')]\<rparr>) 0) =
     [AuthenticateViaPrivateKey
        (JObj [(''client_email'', JStr ''json@example.com''), (''private_key'', JStr ''JSON'')])
        CallsSuccess,
      Initialize JNull JNull JNull JNull CallsSuccess]"
  by (simp add: mock_defs)

subsection \<open>Two sequential steps\<close>

text \<open>
  Claim C2. The log of a call to \<open>initEarthEngine\<close> is the log of its authentication
  step, at most one call and never \<open>ee.initialize\<close>, followed by at most one call of
  \<open>ee.initialize\<close>; \<open>ee.initialize\<close> is called only once the promise of the authentication
  step is fulfilled, the authentication call having completed; and when the authentication
  step is rejected with an error, the returned promise is rejected with that error and the
  log holds no further call.
\<close>

theorem initEarthEngine_two_sequential_steps:
  "(events (initEarthEngine rt lib options s) = events (authenticate rt lib options s) \<or>
       (\<exists>ev. is_initialize ev \<and>
             events (initEarthEngine rt lib options s) =
               events (authenticate rt lib options s) @ [ev] \<and>
             settled (authenticate rt lib options s) = Fulfilled ()))
    \<and> length (events (authenticate rt lib options s)) \<le> 1
    \<and> (\<forall>ev \<in> set (events (authenticate rt lib options s)).
          is_authentication ev \<and>
          (settled (authenticate rt lib options s) = Fulfilled () \<longrightarrow> completed ev))
    \<and> (\<forall>e. settled (authenticate rt lib options s) = Rejected e \<longrightarrow>
          settled (initEarthEngine rt lib options s) = Rejected e \<and>
          events (initEarthEngine rt lib options s) = events (authenticate rt lib options s))"
  unfolding initEarthEngine_def
  by (rule sequence_two_steps
      [where i = "initialize_step rt lib options", OF authenticate_events initialize_step_events])

text \<open>
  An instance: the test "should reject on authentication failure".
\<close>

theorem initEarthEngine_two_sequential_steps_witness:
  "settled (authenticate mock_runtime
      (mock_ee (CallsError (JError ''Authentication failed'')) CallsSuccess)
      (no_options\<lparr>privateKeyJson := JObj [(''email'', JStr ''json@example.com''),
                                           (''privateKey'', JStr ''JSON'')]\<rparr>) 0)
     = Rejected (JError ''Authentication failed'') \<and>
   initEarthEngine mock_runtime
      (mock_ee (CallsError (JError ''Authentication failed'')) CallsSuccess)
      (no_options\<lparr>privateKeyJson := JObj [(''email'', JStr ''json@example.com''),
                                           (''privateKey'', JStr ''JSON'')]\<rparr>) 0 =
     \<lparr>events = [AuthenticateViaPrivateKey
                  (JObj [(''client_email'', JStr ''json@example.com''),
                         (''private_key'', JStr ''JSON'')])
                  (CallsError (JError ''Authentication failed''))],
      lib_state = 1, settled = Rejected (JError ''Authentication failed'')\<rparr>"
  using initEarthEngine_two_sequential_steps
    [of mock_runtime "mock_ee (CallsError (JError ''Authentication failed'')) CallsSuccess"
        "no_options\<lparr>privateKeyJson := JObj [(''email'', JStr ''json@example.com''),
                                           (''privateKey'', JStr ''JSON'')]\<rparr>" 0]
  by (simp add: mock_defs)

subsection \<open>Errors\<close>

text \<open>
  Claim C4. When the pair \<open>email\<close>, \<open>privateKey\<close> is not selected and
  \<open>privateKeyJson\<close> is a non-empty string that \<open>JSON.parse\<close> rejects, the promise is
  rejected with the fixed error and the library has not been called.
\<close>

theorem malformed_json_key_rejected:
  assumes "\<not> (js_truthy (email options) \<and> js_truthy (privateKey options))"
    and "privateKeyJson options = JStr key"
    and "js_truthy (privateKeyJson options)"
    and "JSON_parse rt key = None"
  shows "initEarthEngine rt lib options s =
           \<lparr>events = [], lib_state = s,
            settled = Rejected (JError ''Failed to parse service account JSON key'')\<rparr>"
proof -
  have "parseServiceAccountKey rt (privateKeyJson options) = Inl parse_error"
    using assms(2,4) by (simp add: parseServiceAccountKey_def)
  then have "authenticate rt lib options s =
      \<lparr>events = [], lib_state = s, settled = Rejected parse_error\<rparr>"
    using assms(3) by (simp add: authenticate_else [OF assms(1)])
  then show ?thesis
    by (simp add: initEarthEngine_def sequence_not_fulfilled parse_error_def)
qed

text \<open>
  An instance: the test "should throw error on invalid JSON key string".
\<close>

theorem malformed_json_key_rejected_witness:
  "\<not> (js_truthy (email (no_options\<lparr>privateKeyJson := JStr ''not-valid-json''\<rparr>)) \<and>
       js_truthy (privateKey (no_options\<lparr>privateKeyJson := JStr ''not-valid-json''\<rparr>))) \<and>
   js_truthy (privateKeyJson (no_options\<lparr>privateKeyJson := JStr ''not-valid-json''\<rparr>)) \<and>
   JSON_parse mock_runtime ''not-valid-json'' = None \<and>
   initEarthEngine mock_runtime (mock_ee CallsSuccess CallsSuccess)
     (no_options\<lparr>privateKeyJson := JStr ''not-valid-json''\<rparr>) 0 =
     \<lparr>events = [], lib_state = 0,
      settled = Rejected (JError ''Failed to parse service account JSON key'')\<rparr>"
  using malformed_json_key_rejected
    [of "no_options\<lparr>privateKeyJson := JStr ''not-valid-json''\<rparr>" "''not-valid-json''"
        mock_runtime "mock_ee CallsSuccess CallsSuccess" 0]
  by (simp add: no_options_def mock_runtime_def)

text \<open>
  Claim C5. In a run of \<open>initEarthEngine\<close> or of \<open>initWithOAuth\<close>, whatever value the
  library hands to a failure callback is the value the returned promise is rejected
  with.
\<close>

theorem library_errors_forwarded_verbatim:
  "(\<forall>ev \<in> set (events (initEarthEngine rt lib options s)).
      \<forall>e. delivered_error ev = Some e \<longrightarrow>
        settled (initEarthEngine rt lib options s) = Rejected e) \<and>
   (\<forall>ev \<in> set (events (initWithOAuth lib' oauth s')).
      \<forall>e. delivered_error ev = Some e \<longrightarrow>
        settled (initWithOAuth lib' oauth s') = Rejected e)"
proof -
  have "settled (initEarthEngine rt lib options s) = Rejected e"
    if "ev \<in> set (events (initEarthEngine rt lib options s))" "delivered_error ev = Some e"
    for ev e
    using that unfolding initEarthEngine_def
    by (rule sequence_delivered_error
        [where i = "initialize_step rt lib options", OF authenticate_events initialize_step_events])
  moreover have "settled (initWithOAuth lib' oauth s') = Rejected e"
    if "ev \<in> set (events (initWithOAuth lib' oauth s'))" "delivered_error ev = Some e"
    for ev e
    using that unfolding initWithOAuth_def
    by (rule sequence_delivered_error
        [where i = "oauth_initialize_step lib' oauth",
          OF oauth_authenticate_events oauth_initialize_step_events])
  ultimately show ?thesis by blast
qed

text \<open>
  Instances: the test "should reject on initialization failure", and an OAuth
  authentication that fails.
\<close>

theorem library_errors_forwarded_verbatim_witness:
  "Initialize JNull JNull JNull JNull (CallsError (JError ''Initialization failed''))
     \<in> set (events (initEarthEngine mock_runtime
          (mock_ee CallsSuccess (CallsError (JError ''Initialization failed'')))
          (no_options\<lparr>privateKeyJson := JObj [(''email'', JStr ''json@example.com''),
                                               (''privateKey'', JStr ''JSON'')]\<rparr>) 0)) \<and>
   delivered_error
     (Initialize JNull JNull JNull JNull (CallsError (JError ''Initialization failed'')))
     = Some (JError ''Initialization failed'') \<and>
   settled (initEarthEngine mock_runtime
          (mock_ee CallsSuccess (CallsError (JError ''Initialization failed'')))
          (no_options\<lparr>privateKeyJson := JObj [(''email'', JStr ''json@example.com''),
                                               (''privateKey'', JStr ''JSON'')]\<rparr>) 0)
     = Rejected (JError ''Initialization failed'') \<and>
   AuthenticateViaOauth (JStr ''id'') DEFAULT_SCOPES JNull
       (CallsError (JError ''Authentication failed''))
     \<in> set (events (initWithOAuth
          (mock_ee (CallsError (JError ''Authentication failed'')) CallsSuccess)
          \<lparr>clientId = JStr ''id'', scopes = JUndefined, project = JUndefined\<rparr> 0)) \<and>
   settled (initWithOAuth
          (mock_ee (CallsError (JError ''Authentication failed'')) CallsSuccess)
          \<lparr>clientId = JStr ''id'', scopes = JUndefined, project = JUndefined\<rparr> 0)
     = Rejected (JError ''Authentication failed'')"
  using library_errors_forwarded_verbatim
    [of mock_runtime "mock_ee CallsSuccess (CallsError (JError ''Initialization failed''))"
        "no_options\<lparr>privateKeyJson := JObj [(''email'', JStr ''json@example.com''),
                                           (''privateKey'', JStr ''JSON'')]\<rparr>" 0
        "mock_ee (CallsError (JError ''Authentication failed'')) CallsSuccess"
        "\<lparr>clientId = JStr ''id'', scopes = JUndefined, project = JUndefined\<rparr>" 0]
  by (simp add: mock_defs)

subsection \<open>The project option\<close>

text \<open>
  Claim C7, as amended. When \<open>project\<close> is truthy and not a string, \<open>ee.initialize\<close> is
  not called; and if the authentication step is fulfilled, the returned promise is
  rejected with the message \<open>Project must be a string, got\<close> followed by the type.
\<close>

theorem non_string_project_rejected:
  assumes "js_truthy (EarthEngineInitOptions.project options)"
    and "typeof (EarthEngineInitOptions.project options) \<noteq> ''string''"
  shows "(\<forall>ev \<in> set (events (initEarthEngine rt lib options s)). \<not> is_initialize ev) \<and>
         (settled (authenticate rt lib options s) = Fulfilled () \<longrightarrow>
            settled (initEarthEngine rt lib options s) =
              Rejected (JError (''Project must be a string, got '' @
                                typeof (EarthEngineInitOptions.project options))))"
proof -
  have i: "initialize_step rt lib options s' =
      \<lparr>events = [], lib_state = s',
       settled = Rejected (project_type_error (EarthEngineInitOptions.project options))\<rparr>" for s'
    using assms by (simp add: initialize_step_def)
  have a: "\<forall>ev \<in> set (events (authenticate rt lib options s)). \<not> is_initialize ev"
    using authenticate_events [of rt lib options s]
    by (auto simp: auth_ok_def authentication_not_initialize)
  show ?thesis
  proof (cases "settled (authenticate rt lib options s) = Fulfilled ()")
    case True
    then show ?thesis
      using a by (simp add: initEarthEngine_def sequence_fulfilled i project_type_error_def)
  next
    case False
    then show ?thesis
      using a by (simp add: initEarthEngine_def sequence_not_fulfilled)
  qed
qed

text \<open>
  An instance: \<open>project: 123\<close>, no credentials.
\<close>

theorem non_string_project_rejected_witness:
  "js_truthy (EarthEngineInitOptions.project
      (no_options\<lparr>EarthEngineInitOptions.project := JNum (Finite 123)\<rparr>)) \<and>
   typeof (EarthEngineInitOptions.project
      (no_options\<lparr>EarthEngineInitOptions.project := JNum (Finite 123)\<rparr>)) \<noteq> ''string'' \<and>
   settled (authenticate mock_runtime (mock_ee CallsSuccess CallsSuccess)
      (no_options\<lparr>EarthEngineInitOptions.project := JNum (Finite 123)\<rparr>) 0) = Fulfilled () \<and>
   settled (initEarthEngine mock_runtime (mock_ee CallsSuccess CallsSuccess)
      (no_options\<lparr>EarthEngineInitOptions.project := JNum (Finite 123)\<rparr>) 0) =
     Rejected (JError ''Project must be a string, got number'')"
  using non_string_project_rejected
    [of "no_options\<lparr>EarthEngineInitOptions.project := JNum (Finite 123)\<rparr>"
        mock_runtime "mock_ee CallsSuccess CallsSuccess" 0]
  by (simp add: no_options_def authenticate_def)

text \<open>
  Claim C7 as stated covers every \<open>project\<close> that is present and not a string. With
  \<open>project: 0\<close> the check \<open>if (project)\<close> is not entered: \<open>ee.initialize\<close> is called,
  with \<open>null\<close> for the project, and the promise is fulfilled. And with \<open>project: 123\<close>
  and an authentication that fails, the rejection is the authentication's.
\<close>

theorem non_string_project_counterexample:
  "EarthEngineInitOptions.project
      (no_options\<lparr>EarthEngineInitOptions.project := JNum (Finite 0)\<rparr>) \<noteq> JUndefined \<and>
   typeof (EarthEngineInitOptions.project
      (no_options\<lparr>EarthEngineInitOptions.project := JNum (Finite 0)\<rparr>)) = ''number'' \<and>
   initEarthEngine mock_runtime (mock_ee CallsSuccess CallsSuccess)
      (no_options\<lparr>EarthEngineInitOptions.project := JNum (Finite 0)\<rparr>) 0 =
     \<lparr>events = [Initialize JNull JNull JNull JNull CallsSuccess], lib_state = 1,
      settled = Fulfilled ()\<rparr> \<and>
   initEarthEngine mock_runtime
      (mock_ee (CallsError (JError ''Authentication failed'')) CallsSuccess)
      (no_options\<lparr>email := JStr ''a@b.c'', privateKey := JStr ''KEY'',
                  EarthEngineInitOptions.project := JNum (Finite 123)\<rparr>) 0 =
     \<lparr>events = [AuthenticateViaPrivateKey
                  (JObj [(''client_email'', JStr ''a@b.c''), (''private_key'', JStr ''KEY'')])
                  (CallsError (JError ''Authentication failed''))],
      lib_state = 1, settled = Rejected (JError ''Authentication failed'')\<rparr>"
  by (simp add: mock_defs)

text \<open>
  Claim C9, at \<open>project: '   '\<close>. \<open>initWithOAuth\<close> hands \<open>ee.initialize\<close> the empty
  string, where \<open>initEarthEngine\<close> hands it \<open>null\<close>.
\<close>

theorem oauth_whitespace_project_not_null:
  "events (initWithOAuth (mock_ee CallsSuccess CallsSuccess)
      \<lparr>clientId = JStr ''id'', scopes = JUndefined, project = JStr ''   ''\<rparr> 0) =
     [AuthenticateViaOauth (JStr ''id'')
        (JArr [JStr ''https://www.googleapis.com/auth/earthengine'']) JNull CallsSuccess,
      Initialize JNull JNull JNull (JStr '''') CallsSuccess] \<and>
   events (initEarthEngine mock_runtime (mock_ee CallsSuccess CallsSuccess)
      (no_options\<lparr>EarthEngineInitOptions.project := JStr ''   ''\<rparr>) 0) =
     [Initialize JNull JNull JNull JNull CallsSuccess]"
  by (simp add: mock_defs)

subsection \<open>isInitialized\<close>

text \<open>
  Claim C10. \<open>isInitialized\<close> always returns a boolean: \<open>true\<close> exactly when
  \<open>ee.data.getApiBaseUrl\<close> is a function and calling it returns a value other than
  \<open>null\<close>, and \<open>false\<close> whenever anything inside the \<open>try\<close> block throws.
\<close>

theorem isInitialized_total:
  "\<exists>b. isInitialized d = Inr b \<and>
       (b \<longleftrightarrow> (\<exists>f url. getApiBaseUrl_member d = Inr f \<and> typeof f = ''function'' \<and>
                        getApiBaseUrl_call d = Inr url \<and> url \<noteq> JNull)) \<and>
       ((\<exists>thrown. isInitialized_try d = Inl thrown) \<longrightarrow> \<not> b)"
  by (auto simp: isInitialized_def isInitialized_try_def split: sum.splits)

text \<open>
  An instance: the test "should return false when getApiBaseUrl throws".
\<close>

theorem isInitialized_total_witness:
  "isInitialized_try \<lparr>getApiBaseUrl_member = Inr (JFun 0),
                      getApiBaseUrl_call = Inl (JError ''Not initialized'')\<rparr>
     = Inl (JError ''Not initialized'') \<and>
   isInitialized \<lparr>getApiBaseUrl_member = Inr (JFun 0),
                  getApiBaseUrl_call = Inl (JError ''Not initialized'')\<rparr> = Inr False"
  using isInitialized_total
    [of "\<lparr>getApiBaseUrl_member = Inr (JFun 0),
          getApiBaseUrl_call = Inl (JError ''Not initialized'')\<rparr>"]
  by (simp add: isInitialized_def isInitialized_try_def)

section \<open>Properties of the helpers\<close>

subsection \<open>Calls in sequence\<close>

lemma call_simps:
  "calls (call ee c s) = [(c, fst (ee c s))]"
  "outcome (call ee c s) = fst (ee c s)"
  "api_state (call ee c s) = snd (ee c s)"
  by (simp_all add: call_def split: prod.split)









subsection \<open>Loops over arrays\<close>






subsection \<open>The export records\<close>

lemma map_of_js_set: "map_of (js_set kvs k v) k' = (if k' = k then Some v else map_of kvs k')"
  by (induction kvs) auto

lemma map_of_set_if_truthy:
  "map_of (set_if_truthy k v kvs) k' =
     (if k' = k \<and> js_truthy v then Some v else map_of kvs k')"
  by (simp add: set_if_truthy_def map_of_js_set)


lemma exportImageToDrive_lookup:
  "map_of (exportImageToDrive_options image' options) k =
     (if k = ''formatOptions'' \<and> js_truthy (opt JObj (DriveExportOptions.formatOptions options))
      then Some (opt JObj (DriveExportOptions.formatOptions options))
      else if k = ''region'' \<and> js_truthy (opt id (BaseExportOptions.region options))
      then Some (opt id (BaseExportOptions.region options))
      else if k = ''maxPixels'' \<and> js_truthy (opt JNum (BaseExportOptions.maxPixels options))
      then Some (opt JNum (BaseExportOptions.maxPixels options))
      else if k = ''crs'' \<and> js_truthy (opt JStr (BaseExportOptions.crs options))
      then Some (opt JStr (BaseExportOptions.crs options))
      else if k = ''scale'' \<and> js_truthy (opt JNum (BaseExportOptions.scale options))
      then Some (opt JNum (BaseExportOptions.scale options))
      else if k = ''folder'' \<and> js_truthy (opt JStr (DriveExportOptions.folder options))
      then Some (opt JStr (DriveExportOptions.folder options))
      else if k = ''image'' then Some image'
      else if k = ''description'' then Some (JStr (BaseExportOptions.description options))
      else if k = ''fileFormat''
      then Some (with_default
                   (opt image_file_format_value (DriveExportOptions.fileFormat options))
                   (JStr ''GeoTIFF''))
      else None)"
  by (simp add: exportImageToDrive_options_def Let_def map_of_set_if_truthy)

lemma exportImageToCloudStorage_lookup:
  "map_of (exportImageToCloudStorage_options image' options) k =
     (if k = ''formatOptions'' \<and>
         js_truthy (opt JObj (CloudStorageExportOptions.formatOptions options))
      then Some (opt JObj (CloudStorageExportOptions.formatOptions options))
      else if k = ''region'' \<and> js_truthy (opt id (BaseExportOptions.region options))
      then Some (opt id (BaseExportOptions.region options))
      else if k = ''maxPixels'' \<and> js_truthy (opt JNum (BaseExportOptions.maxPixels options))
      then Some (opt JNum (BaseExportOptions.maxPixels options))
      else if k = ''crs'' \<and> js_truthy (opt JStr (BaseExportOptions.crs options))
      then Some (opt JStr (BaseExportOptions.crs options))
      else if k = ''scale'' \<and> js_truthy (opt JNum (BaseExportOptions.scale options))
      then Some (opt JNum (BaseExportOptions.scale options))
      else if k = ''fileNamePrefix'' \<and>
         js_truthy (opt JStr (CloudStorageExportOptions.fileNamePrefix options))
      then Some (opt JStr (CloudStorageExportOptions.fileNamePrefix options))
      else if k = ''image'' then Some image'
      else if k = ''description'' then Some (JStr (BaseExportOptions.description options))
      else if k = ''bucket'' then Some (JStr (CloudStorageExportOptions.bucket options))
      else if k = ''fileFormat''
      then Some (with_default
                   (opt image_file_format_value (CloudStorageExportOptions.fileFormat options))
                   (JStr ''GeoTIFF''))
      else None)"
  by (simp add: exportImageToCloudStorage_options_def Let_def map_of_set_if_truthy)

lemma exportTableToDrive_lookup:
  "map_of (exportTableToDrive_options collection options) k =
     (if k = ''selectors'' \<and>
         js_truthy (opt strings_value (TableDriveExportOptions.selectors options))
      then Some (opt strings_value (TableDriveExportOptions.selectors options))
      else if k = ''folder'' \<and> js_truthy (opt JStr (TableDriveExportOptions.folder options))
      then Some (opt JStr (TableDriveExportOptions.folder options))
      else if k = ''collection'' then Some collection
      else if k = ''description''
      then Some (JStr (TableDriveExportOptions.description options))
      else if k = ''fileFormat''
      then Some (with_default
                   (opt table_file_format_value (TableDriveExportOptions.fileFormat options))
                   (JStr ''CSV''))
      else None)"
  by (simp add: exportTableToDrive_options_def Let_def map_of_set_if_truthy)

lemma exportTableToCloudStorage_lookup:
  "map_of (exportTableToCloudStorage_options collection options) k =
     (if k = ''selectors'' \<and>
         js_truthy (opt strings_value (TableCloudStorageExportOptions.selectors options))
      then Some (opt strings_value (TableCloudStorageExportOptions.selectors options))
      else if k = ''fileNamePrefix'' \<and>
         js_truthy (opt JStr (TableCloudStorageExportOptions.fileNamePrefix options))
      then Some (opt JStr (TableCloudStorageExportOptions.fileNamePrefix options))
      else if k = ''collection'' then Some collection
      else if k = ''description''
      then Some (JStr (TableCloudStorageExportOptions.description options))
      else if k = ''bucket'' then Some (JStr (TableCloudStorageExportOptions.bucket options))
      else if k = ''fileFormat''
      then Some (with_default
                   (opt cloud_table_file_format_value
                      (TableCloudStorageExportOptions.fileFormat options))
                   (JStr ''CSV''))
      else None)"
  by (simp add: exportTableToCloudStorage_options_def Let_def map_of_set_if_truthy)

lemma exportImageToAsset_lookup:
  "map_of (exportImageToAsset_options image' description' assetId (Some options)) k =
     (if k = ''region'' \<and> js_truthy (opt id (AssetExportOptions.region options))
      then Some (opt id (AssetExportOptions.region options))
      else if k = ''maxPixels'' \<and> js_truthy (opt JNum (AssetExportOptions.maxPixels options))
      then Some (opt JNum (AssetExportOptions.maxPixels options))
      else if k = ''crs'' \<and> js_truthy (opt JStr (AssetExportOptions.crs options))
      then Some (opt JStr (AssetExportOptions.crs options))
      else if k = ''scale'' \<and> js_truthy (opt JNum (AssetExportOptions.scale options))
      then Some (opt JNum (AssetExportOptions.scale options))
      else if k = ''image'' then Some image'
      else if k = ''description'' then Some (JStr description')
      else if k = ''assetId'' then Some (JStr assetId)
      else None)"
  by (simp add: exportImageToAsset_options_def Let_def map_of_set_if_truthy)


lemma image_file_format_truthy: "js_truthy (image_file_format_value f)"
  by (cases f) simp_all

lemma table_file_format_truthy: "js_truthy (table_file_format_value f)"
  by (cases f) simp_all

lemma cloud_table_file_format_truthy: "js_truthy (cloud_table_file_format_value f)"
  by (cases f) (simp_all add: table_file_format_truthy)

lemma with_default_given: "js_truthy v \<Longrightarrow> with_default v d = v"
  by (cases v) (simp_all add: with_default_def)

lemma given_opt:
  "(k, v) \<in> set (given key f x) \<longleftrightarrow> k = key \<and> x \<noteq> None \<and> v = opt f x"
  by (cases x) auto

lemma drive_optional_fields_iff:
  "(k, v) \<in> set (drive_optional_fields options) \<longleftrightarrow>
     (k = ''scale'' \<and> BaseExportOptions.scale options \<noteq> None \<and>
        v = opt JNum (BaseExportOptions.scale options)) \<or>
     (k = ''crs'' \<and> BaseExportOptions.crs options \<noteq> None \<and>
        v = opt JStr (BaseExportOptions.crs options)) \<or>
     (k = ''maxPixels'' \<and> BaseExportOptions.maxPixels options \<noteq> None \<and>
        v = opt JNum (BaseExportOptions.maxPixels options)) \<or>
     (k = ''region'' \<and> BaseExportOptions.region options \<noteq> None \<and>
        v = opt id (BaseExportOptions.region options)) \<or>
     (k = ''folder'' \<and> DriveExportOptions.folder options \<noteq> None \<and>
        v = opt JStr (DriveExportOptions.folder options)) \<or>
     (k = ''fileFormat'' \<and> DriveExportOptions.fileFormat options \<noteq> None \<and>
        v = opt image_file_format_value (DriveExportOptions.fileFormat options)) \<or>
     (k = ''formatOptions'' \<and> DriveExportOptions.formatOptions options \<noteq> None \<and>
        v = opt JObj (DriveExportOptions.formatOptions options))"
  by (simp add: drive_optional_fields_def base_optional_fields_def given_opt disj_ac)

lemma cloud_storage_optional_fields_iff:
  "(k, v) \<in> set (cloud_storage_optional_fields options) \<longleftrightarrow>
     (k = ''scale'' \<and> BaseExportOptions.scale options \<noteq> None \<and>
        v = opt JNum (BaseExportOptions.scale options)) \<or>
     (k = ''crs'' \<and> BaseExportOptions.crs options \<noteq> None \<and>
        v = opt JStr (BaseExportOptions.crs options)) \<or>
     (k = ''maxPixels'' \<and> BaseExportOptions.maxPixels options \<noteq> None \<and>
        v = opt JNum (BaseExportOptions.maxPixels options)) \<or>
     (k = ''region'' \<and> BaseExportOptions.region options \<noteq> None \<and>
        v = opt id (BaseExportOptions.region options)) \<or>
     (k = ''fileNamePrefix'' \<and> CloudStorageExportOptions.fileNamePrefix options \<noteq> None \<and>
        v = opt JStr (CloudStorageExportOptions.fileNamePrefix options)) \<or>
     (k = ''fileFormat'' \<and> CloudStorageExportOptions.fileFormat options \<noteq> None \<and>
        v = opt image_file_format_value (CloudStorageExportOptions.fileFormat options)) \<or>
     (k = ''formatOptions'' \<and> CloudStorageExportOptions.formatOptions options \<noteq> None \<and>
        v = opt JObj (CloudStorageExportOptions.formatOptions options))"
  by (simp add: cloud_storage_optional_fields_def base_optional_fields_def given_opt disj_ac)

lemma table_drive_optional_fields_iff:
  "(k, v) \<in> set (table_drive_optional_fields options) \<longleftrightarrow>
     (k = ''folder'' \<and> TableDriveExportOptions.folder options \<noteq> None \<and>
        v = opt JStr (TableDriveExportOptions.folder options)) \<or>
     (k = ''fileFormat'' \<and> TableDriveExportOptions.fileFormat options \<noteq> None \<and>
        v = opt table_file_format_value (TableDriveExportOptions.fileFormat options)) \<or>
     (k = ''selectors'' \<and> TableDriveExportOptions.selectors options \<noteq> None \<and>
        v = opt strings_value (TableDriveExportOptions.selectors options))"
  by (simp add: table_drive_optional_fields_def given_opt disj_ac)

lemma table_cloud_storage_optional_fields_iff:
  "(k, v) \<in> set (table_cloud_storage_optional_fields options) \<longleftrightarrow>
     (k = ''fileNamePrefix'' \<and> TableCloudStorageExportOptions.fileNamePrefix options \<noteq> None \<and>
        v = opt JStr (TableCloudStorageExportOptions.fileNamePrefix options)) \<or>
     (k = ''fileFormat'' \<and> TableCloudStorageExportOptions.fileFormat options \<noteq> None \<and>
        v = opt cloud_table_file_format_value
              (TableCloudStorageExportOptions.fileFormat options)) \<or>
     (k = ''selectors'' \<and> TableCloudStorageExportOptions.selectors options \<noteq> None \<and>
        v = opt strings_value (TableCloudStorageExportOptions.selectors options))"
  by (simp add: table_cloud_storage_optional_fields_def given_opt disj_ac)

lemma asset_optional_fields_iff:
  "(k, v) \<in> set (asset_optional_fields (Some options)) \<longleftrightarrow>
     (k = ''scale'' \<and> AssetExportOptions.scale options \<noteq> None \<and>
        v = opt JNum (AssetExportOptions.scale options)) \<or>
     (k = ''crs'' \<and> AssetExportOptions.crs options \<noteq> None \<and>
        v = opt JStr (AssetExportOptions.crs options)) \<or>
     (k = ''maxPixels'' \<and> AssetExportOptions.maxPixels options \<noteq> None \<and>
        v = opt JNum (AssetExportOptions.maxPixels options)) \<or>
     (k = ''region'' \<and> AssetExportOptions.region options \<noteq> None \<and>
        v = opt id (AssetExportOptions.region options)) \<or>
     (k = ''formatOptions'' \<and> AssetExportOptions.formatOptions options \<noteq> None \<and>
        v = opt JObj (AssetExportOptions.formatOptions options))"
  by (simp add: asset_optional_fields_def given_opt disj_ac)

lemma opt_image_file_format_truthy:
  "x \<noteq> None \<Longrightarrow> js_truthy (opt image_file_format_value x)"
  by (cases x) (simp_all add: image_file_format_truthy)

lemma opt_table_file_format_truthy:
  "x \<noteq> None \<Longrightarrow> js_truthy (opt table_file_format_value x)"
  by (cases x) (simp_all add: table_file_format_truthy)

lemma opt_cloud_table_file_format_truthy:
  "x \<noteq> None \<Longrightarrow> js_truthy (opt cloud_table_file_format_value x)"
  by (cases x) (simp_all add: cloud_table_file_format_truthy)

lemmas opt_file_format_truthy = opt_image_file_format_truthy opt_table_file_format_truthy
  opt_cloud_table_file_format_truthy

lemma drive_truthy_included:
  assumes "(k, v) \<in> set (drive_optional_fields options)" and "js_truthy v"
  shows "map_of (exportImageToDrive_options image' options) k = Some v"
  using assms unfolding drive_optional_fields_iff
  by (elim disjE conjE; simp add: exportImageToDrive_lookup with_default_given)

lemma drive_falsy_omitted:
  assumes "(k, v) \<in> set (drive_optional_fields options)" and "\<not> js_truthy v"
  shows "map_of (exportImageToDrive_options image' options) k = None"
  using assms unfolding drive_optional_fields_iff
  by (elim disjE conjE; simp add: exportImageToDrive_lookup opt_file_format_truthy)

lemma cloud_storage_truthy_included:
  assumes "(k, v) \<in> set (cloud_storage_optional_fields options)" and "js_truthy v"
  shows "map_of (exportImageToCloudStorage_options image' options) k = Some v"
  using assms unfolding cloud_storage_optional_fields_iff
  by (elim disjE conjE; simp add: exportImageToCloudStorage_lookup with_default_given)

lemma cloud_storage_falsy_omitted:
  assumes "(k, v) \<in> set (cloud_storage_optional_fields options)" and "\<not> js_truthy v"
  shows "map_of (exportImageToCloudStorage_options image' options) k = None"
  using assms unfolding cloud_storage_optional_fields_iff
  by (elim disjE conjE; simp add: exportImageToCloudStorage_lookup opt_file_format_truthy)


lemma table_drive_falsy_omitted:
  assumes "(k, v) \<in> set (table_drive_optional_fields options)" and "\<not> js_truthy v"
  shows "map_of (exportTableToDrive_options collection options) k = None"
  using assms unfolding table_drive_optional_fields_iff
  by (elim disjE conjE; simp add: exportTableToDrive_lookup opt_file_format_truthy)


lemma table_cloud_storage_falsy_omitted:
  assumes "(k, v) \<in> set (table_cloud_storage_optional_fields options)" and "\<not> js_truthy v"
  shows "map_of (exportTableToCloudStorage_options collection options) k = None"
  using assms unfolding table_cloud_storage_optional_fields_iff
  by (elim disjE conjE; simp add: exportTableToCloudStorage_lookup opt_file_format_truthy)


lemma asset_falsy_omitted:
  assumes "(k, v) \<in> set (asset_optional_fields options)" and "\<not> js_truthy v"
  shows "map_of (exportImageToAsset_options image' description' assetId options) k = None"
proof (cases options)
  case None
  with assms(1) show ?thesis by (simp add: asset_optional_fields_def)
next
  case (Some given_options)
  with assms show ?thesis
    unfolding Some asset_optional_fields_iff
    by (elim disjE conjE; simp add: exportImageToAsset_lookup)
qed

lemma opt_truthy_given: "js_truthy (opt f x) \<Longrightarrow> x \<noteq> None"
  by (cases x) simp_all

lemma drive_keys:
  assumes "map_of (exportImageToDrive_options image' options) k \<noteq> None"
  shows "k \<in> {''image'', ''description'', ''fileFormat''} \<union>
             fst ` set (drive_optional_fields options)"
proof -
  have "k \<in> {''image'', ''description'', ''fileFormat''} \<or>
        (\<exists>v. (k, v) \<in> set (drive_optional_fields options))"
    using assms unfolding drive_optional_fields_iff exportImageToDrive_lookup
    by (auto split: if_splits dest: opt_truthy_given)
  then show ?thesis by force
qed

lemma cloud_storage_keys:
  assumes "map_of (exportImageToCloudStorage_options image' options) k \<noteq> None"
  shows "k \<in> {''image'', ''description'', ''bucket'', ''fileFormat''} \<union>
             fst ` set (cloud_storage_optional_fields options)"
proof -
  have "k \<in> {''image'', ''description'', ''bucket'', ''fileFormat''} \<or>
        (\<exists>v. (k, v) \<in> set (cloud_storage_optional_fields options))"
    using assms unfolding cloud_storage_optional_fields_iff exportImageToCloudStorage_lookup
    by (auto split: if_splits dest: opt_truthy_given)
  then show ?thesis by force
qed

lemma file_format_default:
  "with_default (opt image_file_format_value f) (JStr ''GeoTIFF'') =
     (case f of None \<Rightarrow> JStr ''GeoTIFF'' | Some given_format \<Rightarrow> image_file_format_value given_format)"
proof (cases f)
  case None
  then show ?thesis by (simp add: with_default_def)
next
  case (Some given_format)
  then show ?thesis by (simp add: with_default_given image_file_format_truthy)
qed

lemmas example_defs = example_drive_options_def falsy_drive_options_def
  example_cloud_storage_options_def falsy_table_drive_options_def
  example_table_cloud_storage_options_def falsy_asset_options_def
  format_asset_options_def mock_api_def

lemmas export_defs = exportImageToDrive_def exportImageToDrive_options_def
  exportImageToCloudStorage_def exportImageToCloudStorage_options_def
  exportTableToDrive_def exportTableToDrive_options_def
  exportTableToCloudStorage_def exportTableToCloudStorage_options_def
  exportImageToAsset_def exportImageToAsset_options_def
  set_if_truthy_def with_default_def call_def Let_def

text \<open>
  Claim C6, as amended. \<open>exportImageToDrive\<close> makes one library call,
  \<open>ee.batch.Export.image.toDrive\<close>, whose only argument is one flat record, and returns
  what that call returns. The record holds the image, the description and a
  \<open>fileFormat\<close> (\<open>'GeoTIFF'\<close> when none was given); it holds every optional field that
  was given a truthy value, under the same key with the same value; it holds no optional
  field that was given a falsy value; and it holds no other key. The same is true of
  \<open>exportImageToCloudStorage\<close>, with the bucket among the fields always present.
\<close>

theorem exportImage_flat_record:
  "calls (exportImageToDrive ee image' drive s) =
     [(Static ''batch.Export.image.toDrive'' [JObj (exportImageToDrive_options image' drive)],
       outcome (exportImageToDrive ee image' drive s))] \<and>
   map_of (exportImageToDrive_options image' drive) ''image'' = Some image' \<and>
   map_of (exportImageToDrive_options image' drive) ''description'' =
     Some (JStr (BaseExportOptions.description drive)) \<and>
   map_of (exportImageToDrive_options image' drive) ''fileFormat'' =
     Some (case DriveExportOptions.fileFormat drive of
             None \<Rightarrow> JStr ''GeoTIFF''
           | Some given_format \<Rightarrow> image_file_format_value given_format) \<and>
   (\<forall>(k, v) \<in> set (drive_optional_fields drive).
      js_truthy v \<longrightarrow> map_of (exportImageToDrive_options image' drive) k = Some v) \<and>
   (\<forall>(k, v) \<in> set (drive_optional_fields drive).
      \<not> js_truthy v \<longrightarrow> map_of (exportImageToDrive_options image' drive) k = None) \<and>
   (\<forall>k. map_of (exportImageToDrive_options image' drive) k \<noteq> None \<longrightarrow>
      k \<in> {''image'', ''description'', ''fileFormat''} \<union>
          fst ` set (drive_optional_fields drive)) \<and>
   calls (exportImageToCloudStorage ee image' cloud s) =
     [(Static ''batch.Export.image.toCloudStorage''
         [JObj (exportImageToCloudStorage_options image' cloud)],
       outcome (exportImageToCloudStorage ee image' cloud s))] \<and>
   map_of (exportImageToCloudStorage_options image' cloud) ''image'' = Some image' \<and>
   map_of (exportImageToCloudStorage_options image' cloud) ''description'' =
     Some (JStr (BaseExportOptions.description cloud)) \<and>
   map_of (exportImageToCloudStorage_options image' cloud) ''bucket'' =
     Some (JStr (CloudStorageExportOptions.bucket cloud)) \<and>
   map_of (exportImageToCloudStorage_options image' cloud) ''fileFormat'' =
     Some (case CloudStorageExportOptions.fileFormat cloud of
             None \<Rightarrow> JStr ''GeoTIFF''
           | Some given_format \<Rightarrow> image_file_format_value given_format) \<and>
   (\<forall>(k, v) \<in> set (cloud_storage_optional_fields cloud).
      js_truthy v \<longrightarrow> map_of (exportImageToCloudStorage_options image' cloud) k = Some v) \<and>
   (\<forall>(k, v) \<in> set (cloud_storage_optional_fields cloud).
      \<not> js_truthy v \<longrightarrow>
      map_of (exportImageToCloudStorage_options image' cloud) k = None) \<and>
   (\<forall>k. map_of (exportImageToCloudStorage_options image' cloud) k \<noteq> None \<longrightarrow>
      k \<in> {''image'', ''description'', ''bucket'', ''fileFormat''} \<union>
          fst ` set (cloud_storage_optional_fields cloud))"
proof (intro conjI)
  show "calls (exportImageToDrive ee image' drive s) =
     [(Static ''batch.Export.image.toDrive'' [JObj (exportImageToDrive_options image' drive)],
       outcome (exportImageToDrive ee image' drive s))]"
    by (simp add: exportImageToDrive_def call_simps)
  show "calls (exportImageToCloudStorage ee image' cloud s) =
     [(Static ''batch.Export.image.toCloudStorage''
         [JObj (exportImageToCloudStorage_options image' cloud)],
       outcome (exportImageToCloudStorage ee image' cloud s))]"
    by (simp add: exportImageToCloudStorage_def call_simps)
  show "\<forall>(k, v) \<in> set (drive_optional_fields drive).
      js_truthy v \<longrightarrow> map_of (exportImageToDrive_options image' drive) k = Some v"
    using drive_truthy_included by blast
  show "\<forall>(k, v) \<in> set (cloud_storage_optional_fields cloud).
      js_truthy v \<longrightarrow> map_of (exportImageToCloudStorage_options image' cloud) k = Some v"
    using cloud_storage_truthy_included by blast
  show "\<forall>(k, v) \<in> set (drive_optional_fields drive).
      \<not> js_truthy v \<longrightarrow> map_of (exportImageToDrive_options image' drive) k = None"
    using drive_falsy_omitted by blast
  show "\<forall>(k, v) \<in> set (cloud_storage_optional_fields cloud).
      \<not> js_truthy v \<longrightarrow>
      map_of (exportImageToCloudStorage_options image' cloud) k = None"
    using cloud_storage_falsy_omitted by blast
  show "\<forall>k. map_of (exportImageToDrive_options image' drive) k \<noteq> None \<longrightarrow>
      k \<in> {''image'', ''description'', ''fileFormat''} \<union>
          fst ` set (drive_optional_fields drive)"
    using drive_keys by blast
  show "\<forall>k. map_of (exportImageToCloudStorage_options image' cloud) k \<noteq> None \<longrightarrow>
      k \<in> {''image'', ''description'', ''bucket'', ''fileFormat''} \<union>
          fst ` set (cloud_storage_optional_fields cloud)"
    using cloud_storage_keys by blast
qed (simp_all add: exportImageToDrive_lookup exportImageToCloudStorage_lookup
       file_format_default)

text \<open>
  An instance: the export of the documentation comments, with a folder (a file name
  prefix) and a scale.
\<close>

theorem exportImage_flat_record_witness:
  "(''scale'', JNum (Finite 30)) \<in> set (drive_optional_fields example_drive_options) \<and>
   js_truthy (JNum (Finite 30)) \<and>
   map_of (exportImageToDrive_options (JRef 7) example_drive_options) ''scale'' =
     Some (JNum (Finite 30)) \<and>
   calls (exportImageToDrive mock_api (JRef 7) example_drive_options 0) =
     [(Static ''batch.Export.image.toDrive''
         [JObj [(''image'', JRef 7), (''description'', JStr ''my_export''),
                (''fileFormat'', JStr ''GeoTIFF''), (''folder'', JStr ''EarthEngine''),
                (''scale'', JNum (Finite 30))]],
       Inr (JRef 0))] \<and>
   (''fileNamePrefix'', JStr ''exports/landsat'')
     \<in> set (cloud_storage_optional_fields example_cloud_storage_options) \<and>
   map_of (exportImageToCloudStorage_options (JRef 7) example_cloud_storage_options)
     ''fileNamePrefix'' = Some (JStr ''exports/landsat'')"
  using exportImage_flat_record
    [of mock_api "JRef 7" example_drive_options 0 example_cloud_storage_options]
  by (simp add: example_defs export_defs drive_optional_fields_def
      cloud_storage_optional_fields_def base_optional_fields_def)

text \<open>
  Claim C6 as stated includes each optional field that was supplied. A scale of
  \<open>0\<close> and a folder \<open>''\<close> are supplied, and the record passed on holds neither.
\<close>

theorem exportImage_flat_record_counterexample:
  "BaseExportOptions.scale falsy_drive_options = Some (Finite 0) \<and>
   DriveExportOptions.folder falsy_drive_options = Some '''' \<and>
   calls (exportImageToDrive mock_api (JRef 7) falsy_drive_options 0) =
     [(Static ''batch.Export.image.toDrive''
         [JObj [(''image'', JRef 7), (''description'', JStr ''my_export''),
                (''fileFormat'', JStr ''GeoTIFF'')]],
       Inr (JRef 0))]"
  by (simp add: example_defs export_defs)

text \<open>
  Claim C8. For each of the five export helpers that take an options record, the
  record is the single argument of the single library call, and an optional field whose
  value is falsy is not a key of it.
\<close>

theorem falsy_optional_fields_omitted:
  "(calls (exportImageToDrive ee image' drive s) =
      [(Static ''batch.Export.image.toDrive'' [JObj (exportImageToDrive_options image' drive)],
        outcome (exportImageToDrive ee image' drive s))] \<and>
    (\<forall>(k, v) \<in> set (drive_optional_fields drive).
       \<not> js_truthy v \<longrightarrow> map_of (exportImageToDrive_options image' drive) k = None)) \<and>
   (calls (exportImageToCloudStorage ee image' cloud s) =
      [(Static ''batch.Export.image.toCloudStorage''
          [JObj (exportImageToCloudStorage_options image' cloud)],
        outcome (exportImageToCloudStorage ee image' cloud s))] \<and>
    (\<forall>(k, v) \<in> set (cloud_storage_optional_fields cloud).
       \<not> js_truthy v \<longrightarrow> map_of (exportImageToCloudStorage_options image' cloud) k = None)) \<and>
   (calls (exportTableToDrive ee collection table_drive s) =
      [(Static ''batch.Export.table.toDrive''
          [JObj (exportTableToDrive_options collection table_drive)],
        outcome (exportTableToDrive ee collection table_drive s))] \<and>
    (\<forall>(k, v) \<in> set (table_drive_optional_fields table_drive).
       \<not> js_truthy v \<longrightarrow>
       map_of (exportTableToDrive_options collection table_drive) k = None)) \<and>
   (calls (exportTableToCloudStorage ee collection table_cloud s) =
      [(Static ''batch.Export.table.toCloudStorage''
          [JObj (exportTableToCloudStorage_options collection table_cloud)],
        outcome (exportTableToCloudStorage ee collection table_cloud s))] \<and>
    (\<forall>(k, v) \<in> set (table_cloud_storage_optional_fields table_cloud).
       \<not> js_truthy v \<longrightarrow>
       map_of (exportTableToCloudStorage_options collection table_cloud) k = None)) \<and>
   (calls (exportImageToAsset ee image' description' assetId asset s) =
      [(Static ''batch.Export.image.toAsset''
          [JObj (exportImageToAsset_options image' description' assetId asset)],
        outcome (exportImageToAsset ee image' description' assetId asset s))] \<and>
    (\<forall>(k, v) \<in> set (asset_optional_fields asset).
       \<not> js_truthy v \<longrightarrow>
       map_of (exportImageToAsset_options image' description' assetId asset) k = None))"
proof (intro conjI)
  show "\<forall>(k, v) \<in> set (drive_optional_fields drive).
       \<not> js_truthy v \<longrightarrow> map_of (exportImageToDrive_options image' drive) k = None"
    using drive_falsy_omitted by blast
  show "\<forall>(k, v) \<in> set (cloud_storage_optional_fields cloud).
       \<not> js_truthy v \<longrightarrow> map_of (exportImageToCloudStorage_options image' cloud) k = None"
    using cloud_storage_falsy_omitted by blast
  show "\<forall>(k, v) \<in> set (table_drive_optional_fields table_drive).
       \<not> js_truthy v \<longrightarrow>
       map_of (exportTableToDrive_options collection table_drive) k = None"
    using table_drive_falsy_omitted by blast
  show "\<forall>(k, v) \<in> set (table_cloud_storage_optional_fields table_cloud).
       \<not> js_truthy v \<longrightarrow>
       map_of (exportTableToCloudStorage_options collection table_cloud) k = None"
    using table_cloud_storage_falsy_omitted by blast
  show "\<forall>(k, v) \<in> set (asset_optional_fields asset).
       \<not> js_truthy v \<longrightarrow>
       map_of (exportImageToAsset_options image' description' assetId asset) k = None"
    using asset_falsy_omitted by blast
qed (simp_all add: exportImageToDrive_def exportImageToCloudStorage_def exportTableToDrive_def
       exportTableToCloudStorage_def exportImageToAsset_def call_simps)

text \<open>
  Instances: \<open>scale: 0\<close> and \<open>folder: ''\<close> for \<open>exportImageToDrive\<close>;
  \<open>scale: 0\<close> and \<open>maxPixels: NaN\<close> for \<open>exportImageToAsset\<close>.
\<close>

theorem falsy_optional_fields_omitted_witness:
  "(''scale'', JNum (Finite 0)) \<in> set (drive_optional_fields falsy_drive_options) \<and>
   \<not> js_truthy (JNum (Finite 0)) \<and>
   map_of (exportImageToDrive_options (JRef 7) falsy_drive_options) ''scale'' = None \<and>
   (''folder'', JStr '''') \<in> set (drive_optional_fields falsy_drive_options) \<and>
   \<not> js_truthy (JStr '''') \<and>
   map_of (exportImageToDrive_options (JRef 7) falsy_drive_options) ''folder'' = None \<and>
   (''maxPixels'', JNum NaN) \<in> set (asset_optional_fields (Some falsy_asset_options)) \<and>
   \<not> js_truthy (JNum NaN) \<and>
   calls (exportImageToAsset mock_api (JRef 7) ''my_composite'' ''users/me/composites/2020''
            (Some falsy_asset_options) 0) =
     [(Static ''batch.Export.image.toAsset''
         [JObj [(''image'', JRef 7), (''description'', JStr ''my_composite''),
                (''assetId'', JStr ''users/me/composites/2020'')]],
       Inr (JRef 0))]"
  using falsy_optional_fields_omitted
    [of mock_api "JRef 7" falsy_drive_options 0 example_cloud_storage_options
        "JRef 8" falsy_table_drive_options example_table_cloud_storage_options
        "''my_composite''" "''users/me/composites/2020''" "Some falsy_asset_options"]
  by (simp add: example_defs export_defs drive_optional_fields_def
      asset_optional_fields_def base_optional_fields_def)

subsection \<open>Every helper\<close>


























subsection \<open>The log follows the plan\<close>

























subsection \<open>Forwarding\<close>




end
